theory Spec2Isabelle
  imports Complex_Main "HOL-Library.Multiset"
begin

section \<open>RoadPayment: the payment processor of \<open>src/roadpayment/payment.py\<close>\<close>

text \<open>
  A shallow embedding of the module. Conventions:
  \<^item> A \<open>Decimal\<close> is its sign, coefficient and exponent, or one of the special values;
    addition and subtraction are those of the \<open>decimal\<close> module in its default context
    (28 significant digits, rounding half-even, exponents up to 999999, traps on
    \<open>Overflow\<close> and \<open>InvalidOperation\<close>).
  \<^item> A naive \<open>datetime\<close> is its number of microseconds since 0001-01-01T00:00:00 and a
    \<open>timedelta\<close> a number of microseconds; the range checks of both types raise
    \<open>OverflowError\<close> as in Python.
  \<^item> A Python \<open>dict\<close> is an association list in insertion order.
  \<^item> \<open>secrets.token_hex\<close> and \<open>datetime.now\<close> are inputs of the operation that calls
    them: each operation takes the tokens and clock readings it draws.
  \<^item> An exception is a value \<open>Inl e\<close>; a normal return is \<open>Inr v\<close>. An operation that
    raises returns the error together with the processor as it has left it.
  \<^item> A parameter whose name is also the name of a field carries a prime (\<open>amount'\<close>).
  \<^item> The processor is used by one task at a time: the lock and the interleaving of
    other tasks at an \<open>await\<close> are not modelled.
\<close>

subsection \<open>Enumerations\<close>

datatype Currency = USD | EUR | GBP | BTC | ETH

datatype PaymentStatus = PENDING | PROCESSING | COMPLETED | FAILED | REFUNDED | CANCELLED

datatype PaymentMethod = CARD | BANK | WALLET | CRYPTO

datatype SubscriptionStatus = ACTIVE | PAUSED | CANCELLED | EXPIRED

datatype BillingInterval = DAILY | WEEKLY | MONTHLY | YEARLY

subsection \<open>Exceptions\<close>

text \<open>
  \<open>KeyboardInterrupt\<close> and \<open>SystemExit\<close> derive from \<open>BaseException\<close> only; the others
  are subclasses of \<open>Exception\<close>.
\<close>

datatype py_error =
  ValueError string
  | OverflowError
  | NotImplementedError
  | DecimalOverflow
  | DecimalInvalidOperation
  | KeyboardInterrupt
  | SystemExit
  | OtherException string

subsection \<open>Library types: datetime and dict\<close>

type_synonym datetime = int

type_synonym timedelta = int

type_synonym ('k, 'v) dict = "('k \<times> 'v) list"

text \<open>\<open>d.get(k)\<close>\<close>

fun dict_get :: "('k, 'v) dict \<Rightarrow> 'k \<Rightarrow> 'v option" where
  "dict_get [] k = None"
| "dict_get ((k', v) # d) k = (if k' = k then Some v else dict_get d k)"

text \<open>\<open>d[k] = v\<close>: an existing key keeps its position, a new key goes last.\<close>

fun dict_set :: "('k, 'v) dict \<Rightarrow> 'k \<Rightarrow> 'v \<Rightarrow> ('k, 'v) dict" where
  "dict_set [] k v = [(k, v)]"
| "dict_set ((k', v') # d) k v = (if k' = k then (k, v) # d else (k', v') # dict_set d k v)"

text \<open>\<open>d.values()\<close>\<close>

definition dict_values :: "('k, 'v) dict \<Rightarrow> 'v list" where
  "dict_values d = map snd d"

text \<open>\<open>d.update(r)\<close>: the items of \<open>r\<close> are stored one by one, in order.\<close>

fun dict_update :: "('k, 'v) dict \<Rightarrow> ('k, 'v) dict \<Rightarrow> ('k, 'v) dict" where
  "dict_update d [] = d"
| "dict_update d ((k, v) # r) = dict_update (dict_set d k v) r"

text \<open>
  \<open>timedelta(days=d, weeks=w)\<close>: the number of days is \<open>d + 7 * w\<close>, and a magnitude
  above 999999999 days raises \<open>OverflowError\<close>.
\<close>

definition microseconds_per_day :: int where
  "microseconds_per_day = 86400000000"

definition timedelta :: "int \<Rightarrow> int \<Rightarrow> py_error + timedelta" where
  "timedelta days weeks =
     (let d = days + 7 * weeks
      in if \<bar>d\<bar> > 999999999 then Inl OverflowError else Inr (d * microseconds_per_day))"

text \<open>
  \<open>datetime.max\<close> is 9999-12-31T23:59:59.999999; that day has ordinal 3652059
  (0001-01-01 has ordinal 1).
\<close>

definition datetime_max :: datetime where
  "datetime_max = 3652059 * microseconds_per_day - 1"

text \<open>\<open>datetime + timedelta\<close>: a result outside the range of the type raises.\<close>

definition datetime_add :: "datetime \<Rightarrow> timedelta \<Rightarrow> py_error + datetime" where
  "datetime_add t d =
     (if 0 \<le> t + d \<and> t + d \<le> datetime_max then Inr (t + d) else Inl OverflowError)"

text \<open>Truthiness of an optional string: \<open>None\<close> and the empty string are false.\<close>

fun truthy_str :: "string option \<Rightarrow> bool" where
  "truthy_str None = False"
| "truthy_str (Some s) = (s \<noteq> [])"

subsection \<open>Library type: Decimal\<close>

text \<open>
  A finite Decimal \<open>Finite sign coefficient exponent\<close> has the value
  \<open>coefficient * 10 ^ exponent\<close>, negated when \<open>sign\<close> is true; \<open>Decimal("99.99")\<close> is
  \<open>Finite False 9999 (- 2)\<close>. The special values are the infinities and the quiet and
  signalling NaNs, with their sign and payload.
\<close>

datatype Decimal =
  Finite bool nat int
  | Infinity bool
  | NaN bool nat
  | sNaN bool nat






text \<open>The number of decimal digits of a coefficient (\<open>len(self._int)\<close>; zero has one).\<close>

fun ndigits :: "nat \<Rightarrow> nat" where
  "ndigits n = (if n < 10 then 1 else Suc (ndigits (n div 10)))"

declare ndigits.simps [simp del]









text \<open>\<open>Decimal.__bool__\<close>: a special value is true, a finite one unless it is a zero.\<close>

fun decimal_bool :: "Decimal \<Rightarrow> bool" where
  "decimal_bool (Finite s c e) = (c \<noteq> 0)"
| "decimal_bool d = True"

text \<open>Truthiness of an optional Decimal: \<open>None\<close> and the zeros are false.\<close>

fun truthy_decimal :: "Decimal option \<Rightarrow> bool" where
  "truthy_decimal None = False"
| "truthy_decimal (Some d) = decimal_bool d"


subsection \<open>Money\<close>

record Money =
  amount :: Decimal
  currency :: Currency



subsection \<open>Period calculation\<close>

text \<open>\<open>PaymentProcessor._calculate_period_end\<close>\<close>

definition calculate_period_end :: "datetime \<Rightarrow> BillingInterval \<Rightarrow> int \<Rightarrow> py_error + datetime" where
  "calculate_period_end start interval' cnt =
     (if interval' = DAILY then
        (case timedelta cnt 0 of Inl e \<Rightarrow> Inl e | Inr d \<Rightarrow> datetime_add start d)
      else if interval' = WEEKLY then
        (case timedelta 0 cnt of Inl e \<Rightarrow> Inl e | Inr d \<Rightarrow> datetime_add start d)
      else if interval' = MONTHLY then
        (case timedelta (30 * cnt) 0 of Inl e \<Rightarrow> Inl e | Inr d \<Rightarrow> datetime_add start d)
      else
        (case timedelta (365 * cnt) 0 of Inl e \<Rightarrow> Inl e | Inr d \<Rightarrow> datetime_add start d))"

text \<open>
  The specification's reading of ``\<open>start\<close> plus \<open>n\<close> days'': the instant \<open>n\<close> whole days
  after \<open>start\<close>, defined when \<open>n\<close> days is a representable duration and the instant a
  representable date.
\<close>

definition plus_days :: "datetime \<Rightarrow> int \<Rightarrow> py_error + datetime" where
  "plus_days start n =
     (if \<bar>n\<bar> \<le> 999999999 \<and> 0 \<le> start + n * 86400000000
         \<and> start + n * 86400000000 \<le> datetime_max
      then Inr (start + n * 86400000000) else Inl OverflowError)"

subsection \<open>Entity records\<close>

record PaymentMethodInfo =
  id :: string
  type :: PaymentMethod
  last_four :: string
  brand :: string
  exp_month :: int
  exp_year :: int
  metadata :: "(string, string) dict"

record Customer =
  id :: string
  email :: string
  name :: string
  payment_methods :: "PaymentMethodInfo list"
  default_payment_method :: "string option"
  metadata :: "(string, string) dict"
  created_at :: datetime

record Payment =
  id :: string
  customer_id :: string
  amount :: Money
  status :: PaymentStatus
  payment_method_id :: "string option"
  description :: string
  metadata :: "(string, string) dict"
  created_at :: datetime
  completed_at :: "datetime option"
  error :: "string option"

record Refund =
  id :: string
  payment_id :: string
  amount :: Money
  reason :: string
  status :: PaymentStatus
  created_at :: datetime

record Plan =
  id :: string
  name :: string
  amount :: Money
  interval :: BillingInterval
  interval_count :: int
  trial_days :: int
  features :: "string list"
  metadata :: "(string, string) dict"

record Subscription =
  id :: string
  customer_id :: string
  plan_id :: string
  status :: SubscriptionStatus
  current_period_start :: datetime
  current_period_end :: "datetime option"
  trial_end :: "datetime option"
  cancelled_at :: "datetime option"
  metadata :: "(string, string) dict"

subsection \<open>Provider and event handlers\<close>

text \<open>
  A provider is the pair of its two operations. A call returns \<open>(success, result)\<close> or
  raises; the values of the result mapping are opaque to the processor and modelled as
  strings, the type of the one entry it reads (\<open>error\<close>).
\<close>

record PaymentProvider =
  charge :: "Customer \<Rightarrow> Money \<Rightarrow> string \<Rightarrow> py_error + (bool \<times> (string, string) dict)"
  refund :: "string \<Rightarrow> Money \<Rightarrow> py_error + (bool \<times> (string, string) dict)"

text \<open>
  \<open>MockPaymentProvider\<close>, which accepts every charge and every refund; \<open>tok\<close> is the
  value of \<open>secrets.token_hex(16)\<close>. (A provider whose answers vary from call to call is
  another value of the type; the properties below hold for every provider.)
\<close>

definition MockPaymentProvider :: "string \<Rightarrow> PaymentProvider" where
  "MockPaymentProvider tok =
     \<lparr>charge = (\<lambda>customer amount' payment_method_id'. Inr (True, [(''provider_id'', tok)])),
      refund = (\<lambda>payment_id' amount'. Inr (True, [(''provider_id'', tok)]))\<rparr>"

text \<open>The base class \<open>PaymentProvider\<close>, whose two methods raise.\<close>

definition AbstractPaymentProvider :: PaymentProvider where
  "AbstractPaymentProvider =
     \<lparr>charge = (\<lambda>customer amount' payment_method_id'. Inl NotImplementedError),
      refund = (\<lambda>payment_id' amount'. Inl NotImplementedError)\<rparr>"

text \<open>The record an event carries: a snapshot of the object passed to \<open>_emit\<close>.\<close>

datatype Entity = PaymentE Payment | RefundE Refund | SubscriptionE Subscription

text \<open>
  What a call of a handler does, as \<open>_emit\<close> sees it. The handler returns; or it raises
  an \<open>Exception\<close> \<open>e\<close>, which the \<open>except Exception\<close> clause catches, and \<open>str(e)\<close> gives
  the message to log; or it raises an \<open>Exception\<close> whose \<open>str(e)\<close> raises in turn, inside
  the \<open>except\<close> block; or it raises outside the class \<open>Exception\<close> (\<open>KeyboardInterrupt\<close>,
  \<open>SystemExit\<close>), which the clause does not catch.
\<close>

datatype Outcome =
  Returns
  | Raises_Exception string
  | Raises_Unprintable py_error
  | Raises_Other py_error

text \<open>The outcomes that stay inside \<open>_emit\<close>: a return, and an exception caught and logged.\<close>

fun isolated :: "Outcome \<Rightarrow> bool" where
  "isolated Returns = True"
| "isolated (Raises_Exception msg) = True"
| "isolated (Raises_Unprintable e) = False"
| "isolated (Raises_Other e) = False"

text \<open>The message that a caught exception leaves in the log.\<close>

fun log_line :: "Outcome \<Rightarrow> string option" where
  "log_line (Raises_Exception msg) = Some (''Hook error: '' @ msg)"
| "log_line out = None"

text \<open>
  A handler is a callable with an identity (\<open>handler_id\<close>). Handlers are observers: they
  do not write to the processor or to the record they receive.
\<close>

record Handler =
  handler_id :: string
  call :: "Entity \<Rightarrow> Outcome"

text \<open>
  What the processor does to the outside, in order: entering \<open>_emit\<close>, calling a handler,
  writing to the error log, calling the provider. The source keeps no such list; the
  field \<open>trace\<close> below records these actions so that they can be stated.
\<close>

datatype Action =
  Emit string Entity
  | Invoke string Entity
  | LogError string
  | Charge Customer Money string
  | RefundCall string Money

subsection \<open>The processor\<close>

record PaymentProcessor =
  provider :: PaymentProvider
  customers :: "(string, Customer) dict"
  payments :: "(string, Payment) dict"
  refunds :: "(string, Refund) dict"
  plans :: "(string, Plan) dict"
  subscriptions :: "(string, Subscription) dict"
  hooks :: "(string, Handler list) dict"
  trace :: "Action list"

text \<open>
  \<open>PaymentProcessor.__init__\<close>; \<open>prov\<close> is the provider the processor keeps, that is the
  argument of the constructor or, when there is none, a \<open>MockPaymentProvider\<close>.
\<close>

definition init :: "PaymentProvider \<Rightarrow> PaymentProcessor" where
  "init prov =
     \<lparr>provider = prov, customers = [], payments = [], refunds = [], plans = [],
      subscriptions = [],
      hooks = [(''payment.created'', []), (''payment.completed'', []), (''payment.failed'', []),
               (''subscription.created'', []), (''subscription.cancelled'', []),
               (''refund.created'', []), (''refund.completed'', [])],
      trace = []\<rparr>"

text \<open>\<open>PaymentProcessor.add_hook\<close>\<close>

definition add_hook :: "PaymentProcessor \<Rightarrow> string \<Rightarrow> Handler \<Rightarrow> PaymentProcessor" where
  "add_hook s event handler =
     (case dict_get (hooks s) event of
        None \<Rightarrow> s
      | Some hs \<Rightarrow> s\<lparr>hooks := dict_set (hooks s) event (hs @ [handler])\<rparr>)"

text \<open>
  The loop of \<open>_emit\<close> over the handlers of one event: the actions it performs, and the
  exception that ends it, if one does. An exception that is not caught ends the loop:
  the handlers after it are not called.
\<close>

fun run_handlers :: "Handler list \<Rightarrow> Entity \<Rightarrow> Action list \<times> py_error option" where
  "run_handlers [] d = ([], None)"
| "run_handlers (h # hs) d =
     (case call h d of
        Returns \<Rightarrow>
          (case run_handlers hs d of (acts, r) \<Rightarrow> (Invoke (handler_id h) d # acts, r))
      | Raises_Exception msg \<Rightarrow>
          (case run_handlers hs d of
             (acts, r) \<Rightarrow> (Invoke (handler_id h) d # LogError (''Hook error: '' @ msg) # acts, r))
      | Raises_Unprintable e \<Rightarrow> ([Invoke (handler_id h) d], Some e)
      | Raises_Other e \<Rightarrow> ([Invoke (handler_id h) d], Some e))"

text \<open>\<open>self.hooks.get(event, [])\<close>\<close>

definition registered :: "PaymentProcessor \<Rightarrow> string \<Rightarrow> Handler list" where
  "registered s event = (case dict_get (hooks s) event of None \<Rightarrow> [] | Some hs \<Rightarrow> hs)"

text \<open>
  \<open>PaymentProcessor._emit\<close>: \<open>None\<close> when it returns, \<open>Some e\<close> when the exception \<open>e\<close>
  leaves it.
\<close>

definition emit ::
  "PaymentProcessor \<Rightarrow> string \<Rightarrow> Entity \<Rightarrow> py_error option \<times> PaymentProcessor" where
  "emit s event d =
     (case run_handlers (registered s event) d of
        (acts, r) \<Rightarrow> (r, s\<lparr>trace := trace s @ Emit event d # acts\<rparr>))"

text \<open>\<open>PaymentProcessor.create_customer\<close>\<close>

definition create_customer ::
  "PaymentProcessor \<Rightarrow> string \<Rightarrow> string \<Rightarrow> (string, string) dict \<Rightarrow> string \<Rightarrow> datetime
     \<Rightarrow> Customer \<times> PaymentProcessor" where
  "create_customer s email' name' metadata' tok now =
     (let customer = \<lparr>Customer.id = ''cus_'' @ tok, email = email', Customer.name = name',
                       payment_methods = [], default_payment_method = None,
                       Customer.metadata = metadata', Customer.created_at = now\<rparr>
      in (customer, s\<lparr>customers := dict_set (customers s) (Customer.id customer) customer\<rparr>))"

text \<open>\<open>PaymentProcessor.get_customer\<close>\<close>

definition get_customer :: "PaymentProcessor \<Rightarrow> string \<Rightarrow> Customer option" where
  "get_customer s customer_id' = dict_get (customers s) customer_id'"

text \<open>
  \<open>PaymentProcessor.add_payment_method\<close>; the keyword arguments are the five fields of
  the method other than its id and type (one left out of the call has its default).
\<close>

definition add_payment_method ::
  "PaymentProcessor \<Rightarrow> string \<Rightarrow> PaymentMethod \<Rightarrow> string \<Rightarrow> string \<Rightarrow> int \<Rightarrow> int
     \<Rightarrow> (string, string) dict \<Rightarrow> string \<Rightarrow> PaymentMethodInfo option \<times> PaymentProcessor" where
  "add_payment_method s customer_id' method_type last_four' brand' exp_month' exp_year'
       metadata' tok =
     (case dict_get (customers s) customer_id' of
        None \<Rightarrow> (None, s)
      | Some customer \<Rightarrow>
          let method = \<lparr>PaymentMethodInfo.id = ''pm_'' @ tok, type = method_type,
                         last_four = last_four', brand = brand', exp_month = exp_month',
                         exp_year = exp_year', PaymentMethodInfo.metadata = metadata'\<rparr>;
              customer1 = customer\<lparr>payment_methods := payment_methods customer @ [method]\<rparr>;
              customer2 =
                (if \<not> truthy_str (default_payment_method customer1)
                 then customer1\<lparr>default_payment_method := Some (PaymentMethodInfo.id method)\<rparr>
                 else customer1)
          in (Some method, s\<lparr>customers := dict_set (customers s) customer_id' customer2\<rparr>))"

text \<open>\<open>payment_method_id or customer.default_payment_method\<close>\<close>

definition pm_id_of :: "string option \<Rightarrow> Customer \<Rightarrow> string option" where
  "pm_id_of payment_method_id' customer =
     (if truthy_str payment_method_id' then payment_method_id'
      else default_payment_method customer)"

text \<open>
  \<open>PaymentProcessor.create_payment\<close>; \<open>now\<close> is the clock reading that stamps
  \<open>created_at\<close>, \<open>now2\<close> the one that stamps \<open>completed_at\<close>. The payment object is the
  entry of the store under its id, so an assignment to one of its fields rewrites that
  entry. An exception that leaves \<open>_emit\<close> or the provider leaves the operation.
\<close>

definition create_payment ::
  "PaymentProcessor \<Rightarrow> string \<Rightarrow> Decimal \<Rightarrow> Currency \<Rightarrow> string option \<Rightarrow> string \<Rightarrow> string
     \<Rightarrow> datetime \<Rightarrow> datetime \<Rightarrow> (py_error + Payment) \<times> PaymentProcessor" where
  "create_payment s customer_id' amount' currency' payment_method_id' description' tok now now2 =
     (case dict_get (customers s) customer_id' of
        None \<Rightarrow> (Inl (ValueError ''Customer not found''), s)
      | Some customer \<Rightarrow>
          if \<not> truthy_str (pm_id_of payment_method_id' customer)
          then (Inl (ValueError ''No payment method''), s)
          else
            (case pm_id_of payment_method_id' customer of
               None \<Rightarrow> (Inl (ValueError ''No payment method''), s)
             | Some pm_id \<Rightarrow>
                let payment = \<lparr>Payment.id = ''pay_'' @ tok, Payment.customer_id = customer_id',
                                Payment.amount = \<lparr>Money.amount = amount', currency = currency'\<rparr>,
                                Payment.status = PENDING, payment_method_id = Some pm_id,
                                description = description', Payment.metadata = [],
                                Payment.created_at = now, completed_at = None, error = None\<rparr>;
                    s1 = s\<lparr>payments := dict_set (payments s) (Payment.id payment) payment\<rparr>
                in (case emit s1 ''payment.created'' (PaymentE payment) of
                      (Some e, s2) \<Rightarrow> (Inl e, s2)
                    | (None, s2) \<Rightarrow>
                        let payment2 = payment\<lparr>Payment.status := PROCESSING\<rparr>;
                            s3 = s2\<lparr>payments :=
                                      dict_set (payments s2) (Payment.id payment) payment2,
                                    trace := trace s2 @
                                      [Charge customer (Payment.amount payment2) pm_id]\<rparr>
                        in (case charge (provider s3) customer (Payment.amount payment2) pm_id of
                              Inl e \<Rightarrow> (Inl e, s3)
                            | Inr (success, result) \<Rightarrow>
                                if success then
                                  let payment3 = payment2\<lparr>Payment.status := COMPLETED,
                                                   completed_at := Some now2,
                                                   Payment.metadata :=
                                                     dict_update (Payment.metadata payment2) result\<rparr>;
                                      s4 = s3\<lparr>payments :=
                                                dict_set (payments s3) (Payment.id payment) payment3\<rparr>
                                  in (case emit s4 ''payment.completed'' (PaymentE payment3) of
                                        (Some e, s5) \<Rightarrow> (Inl e, s5)
                                      | (None, s5) \<Rightarrow> (Inr payment3, s5))
                                else
                                  let payment3 = payment2\<lparr>Payment.status := FAILED,
                                                   error := Some (case dict_get result ''error'' of
                                                                    None \<Rightarrow> ''Payment failed''
                                                                  | Some e \<Rightarrow> e)\<rparr>;
                                      s4 = s3\<lparr>payments :=
                                                dict_set (payments s3) (Payment.id payment) payment3\<rparr>
                                  in (case emit s4 ''payment.failed'' (PaymentE payment3) of
                                        (Some e, s5) \<Rightarrow> (Inl e, s5)
                                      | (None, s5) \<Rightarrow> (Inr payment3, s5))))))"

text \<open>\<open>Money(amount or payment.amount.amount, payment.amount.currency)\<close>\<close>

definition refund_amount :: "Decimal option \<Rightarrow> Payment \<Rightarrow> Money" where
  "refund_amount amount' payment =
     \<lparr>Money.amount = (case amount' of
                         None \<Rightarrow> Money.amount (Payment.amount payment)
                       | Some a \<Rightarrow> if truthy_decimal (Some a) then a
                                   else Money.amount (Payment.amount payment)),
      currency = Money.currency (Payment.amount payment)\<rparr>"

text \<open>
  \<open>PaymentProcessor.create_refund\<close>. The payment object is the entry of the store under
  \<open>payment_id\<close>, the refund object the entry of \<open>refunds\<close> under its id.
\<close>

definition create_refund ::
  "PaymentProcessor \<Rightarrow> string \<Rightarrow> Decimal option \<Rightarrow> string \<Rightarrow> string \<Rightarrow> datetime
     \<Rightarrow> (py_error + Refund option) \<times> PaymentProcessor" where
  "create_refund s payment_id' amount' reason' tok now =
     (case dict_get (payments s) payment_id' of
        None \<Rightarrow> (Inr None, s)
      | Some payment \<Rightarrow>
          if Payment.status payment \<noteq> COMPLETED then (Inr None, s)
          else
            let refund0 = \<lparr>Refund.id = ''ref_'' @ tok, payment_id = payment_id',
                            Refund.amount = refund_amount amount' payment, reason = reason',
                            Refund.status = PENDING, Refund.created_at = now\<rparr>;
                s1 = s\<lparr>refunds := dict_set (refunds s) (Refund.id refund0) refund0\<rparr>
            in (case emit s1 ''refund.created'' (RefundE refund0) of
                  (Some e, s2) \<Rightarrow> (Inl e, s2)
                | (None, s2) \<Rightarrow>
                    let s3 = s2\<lparr>trace := trace s2 @
                                  [RefundCall payment_id' (Refund.amount refund0)]\<rparr>
                    in (case refund (provider s3) payment_id' (Refund.amount refund0) of
                          Inl e \<Rightarrow> (Inl e, s3)
                        | Inr (success, result) \<Rightarrow>
                            if success then
                              let refund1 = refund0\<lparr>Refund.status := COMPLETED\<rparr>;
                                  s4 = s3\<lparr>refunds :=
                                            dict_set (refunds s3) (Refund.id refund0) refund1,
                                          payments :=
                                            dict_set (payments s3) payment_id'
                                              (payment\<lparr>Payment.status := REFUNDED\<rparr>)\<rparr>
                              in (case emit s4 ''refund.completed'' (RefundE refund1) of
                                    (Some e, s5) \<Rightarrow> (Inl e, s5)
                                  | (None, s5) \<Rightarrow> (Inr (Some refund1), s5))
                            else
                              let refund1 = refund0\<lparr>Refund.status := FAILED\<rparr>
                              in (Inr (Some refund1),
                                  s3\<lparr>refunds :=
                                       dict_set (refunds s3) (Refund.id refund0) refund1\<rparr>))))"

text \<open>
  \<open>PaymentProcessor.create_plan\<close>; the keyword arguments are \<open>interval_count\<close>,
  \<open>trial_days\<close>, \<open>features\<close> and \<open>metadata\<close>.
\<close>

definition create_plan ::
  "PaymentProcessor \<Rightarrow> string \<Rightarrow> Decimal \<Rightarrow> Currency \<Rightarrow> BillingInterval \<Rightarrow> int \<Rightarrow> int
     \<Rightarrow> string list \<Rightarrow> (string, string) dict \<Rightarrow> string \<Rightarrow> Plan \<times> PaymentProcessor" where
  "create_plan s name' amount' currency' interval' interval_count' trial_days' features'
       metadata' tok =
     (let plan = \<lparr>Plan.id = ''plan_'' @ tok, Plan.name = name',
                   Plan.amount = \<lparr>Money.amount = amount', currency = currency'\<rparr>,
                   interval = interval', interval_count = interval_count',
                   trial_days = trial_days', features = features', Plan.metadata = metadata'\<rparr>
      in (plan, s\<lparr>plans := dict_set (plans s) (Plan.id plan) plan\<rparr>))"

text \<open>
  \<open>PaymentProcessor.create_subscription\<close>; \<open>now\<close> is the reading taken in the body,
  \<open>now2\<close> the later one that the constructor takes for \<open>current_period_start\<close>.
\<close>

definition create_subscription ::
  "PaymentProcessor \<Rightarrow> string \<Rightarrow> string \<Rightarrow> string \<Rightarrow> datetime \<Rightarrow> datetime
     \<Rightarrow> (py_error + Subscription option) \<times> PaymentProcessor" where
  "create_subscription s customer_id' plan_id' tok now now2 =
     (case (dict_get (customers s) customer_id', dict_get (plans s) plan_id') of
        (Some customer, Some plan) \<Rightarrow>
          (case calculate_period_end now (interval plan) (interval_count plan) of
             Inl e \<Rightarrow> (Inl e, s)
           | Inr period_end \<Rightarrow>
               (case (if trial_days plan \<noteq> 0
                      then (case timedelta (trial_days plan) 0 of
                              Inl e \<Rightarrow> Inl e
                            | Inr d \<Rightarrow> (case datetime_add now d of
                                          Inl e \<Rightarrow> Inl e
                                        | Inr t \<Rightarrow> Inr (Some t)))
                      else Inr None) of
                  Inl e \<Rightarrow> (Inl e, s)
                | Inr trial_end' \<Rightarrow>
                    let subscription =
                          \<lparr>Subscription.id = ''sub_'' @ tok,
                           Subscription.customer_id = customer_id', plan_id = plan_id',
                           Subscription.status = ACTIVE, current_period_start = now2,
                           current_period_end = Some period_end, trial_end = trial_end',
                           cancelled_at = None, Subscription.metadata = []\<rparr>;
                        s1 = s\<lparr>subscriptions :=
                                 dict_set (subscriptions s) (Subscription.id subscription)
                                   subscription\<rparr>
                    in (case emit s1 ''subscription.created'' (SubscriptionE subscription) of
                          (Some e, s2) \<Rightarrow> (Inl e, s2)
                        | (None, s2) \<Rightarrow> (Inr (Some subscription), s2))))
      | _ \<Rightarrow> (Inr None, s))"

text \<open>\<open>PaymentProcessor.cancel_subscription\<close>\<close>

definition cancel_subscription ::
  "PaymentProcessor \<Rightarrow> string \<Rightarrow> datetime \<Rightarrow> (py_error + bool) \<times> PaymentProcessor" where
  "cancel_subscription s subscription_id now =
     (case dict_get (subscriptions s) subscription_id of
        None \<Rightarrow> (Inr False, s)
      | Some subscription \<Rightarrow>
          let subscription1 = subscription\<lparr>Subscription.status := SubscriptionStatus.CANCELLED,
                                cancelled_at := Some now\<rparr>;
              s1 = s\<lparr>subscriptions :=
                       dict_set (subscriptions s) subscription_id subscription1\<rparr>
          in (case emit s1 ''subscription.cancelled'' (SubscriptionE subscription1) of
                (Some e, s2) \<Rightarrow> (Inl e, s2)
              | (None, s2) \<Rightarrow> (Inr True, s2)))"

text \<open>
  \<open>sorted(xs, key=key, reverse=True)\<close>: Python reverses the list, sorts it stably in
  ascending order and reverses the result, so that equal keys keep their order.
\<close>

definition sorted_reverse :: "('a \<Rightarrow> 'b::linorder) \<Rightarrow> 'a list \<Rightarrow> 'a list" where
  "sorted_reverse key xs = rev (sort_key key (rev xs))"

text \<open>
  \<open>PaymentProcessor.list_payments\<close>; the second component is the processor after the
  call.
\<close>

definition list_payments ::
  "PaymentProcessor \<Rightarrow> string option \<Rightarrow> Payment list \<times> PaymentProcessor" where
  "list_payments s customer_id' =
     (let payments0 = dict_values (payments s);
          payments1 =
            (if truthy_str customer_id'
             then filter (\<lambda>p. Some (Payment.customer_id p) = customer_id') payments0
             else payments0)
      in (sorted_reverse Payment.created_at payments1, s))"

subsection \<open>Reachable states\<close>

text \<open>
  The states a processor goes through when it is used through its methods, whatever
  their arguments and outcomes (an operation that raises leaves a state too).
\<close>

inductive reachable :: "PaymentProcessor \<Rightarrow> bool" where
  r_init: "reachable (init prov)"
| r_add_hook: "reachable s \<Longrightarrow> reachable (add_hook s event h)"
| r_create_customer: "reachable s \<Longrightarrow> reachable (snd (create_customer s em nm md tok now))"
| r_add_payment_method:
    "reachable s \<Longrightarrow> reachable (snd (add_payment_method s cid mt lf br em ey md tok))"
| r_create_payment:
    "reachable s \<Longrightarrow> reachable (snd (create_payment s cid am cur pm descr tok now now2))"
| r_create_refund: "reachable s \<Longrightarrow> reachable (snd (create_refund s pid am rs tok now))"
| r_create_plan: "reachable s \<Longrightarrow> reachable (snd (create_plan s nm am cur iv ic td fs md tok))"
| r_create_subscription:
    "reachable s \<Longrightarrow> reachable (snd (create_subscription s cid plid tok now now2))"
| r_cancel_subscription: "reachable s \<Longrightarrow> reachable (snd (cancel_subscription s sid now))"
| r_list_payments: "reachable s \<Longrightarrow> reachable (snd (list_payments s cid))"

subsection \<open>Reading the trace\<close>

text \<open>The actions a call added: the trace after it, without the trace before it.\<close>

definition new_actions :: "PaymentProcessor \<Rightarrow> PaymentProcessor \<Rightarrow> Action list" where
  "new_actions s s' = drop (length (trace s)) (trace s')"

text \<open>The records with which one event was emitted, in order.\<close>

fun emitted :: "string \<Rightarrow> Action list \<Rightarrow> Entity list" where
  "emitted ev [] = []"
| "emitted ev (Emit e d # as) = (if e = ev then d # emitted ev as else emitted ev as)"
| "emitted ev (_ # as) = emitted ev as"

text \<open>The handler calls, in order: which handler, with which record.\<close>

fun invoked :: "Action list \<Rightarrow> (string \<times> Entity) list" where
  "invoked [] = []"
| "invoked (Invoke h d # as) = (h, d) # invoked as"
| "invoked (_ # as) = invoked as"

text \<open>The lines written to the error log, in order.\<close>

fun logged :: "Action list \<Rightarrow> string list" where
  "logged [] = []"
| "logged (LogError m # as) = m # logged as"
| "logged (_ # as) = logged as"

text \<open>The provider charges, in order: the payment method id each was made with.\<close>

fun charged :: "Action list \<Rightarrow> (Customer \<times> Money \<times> string) list" where
  "charged [] = []"
| "charged (Charge c m pm # as) = (c, m, pm) # charged as"
| "charged (_ # as) = charged as"

text \<open>The provider refunds, in order: the payment id and the amount of each.\<close>

fun refunded :: "Action list \<Rightarrow> (string \<times> Money) list" where
  "refunded [] = []"
| "refunded (RefundCall pid m # as) = (pid, m) # refunded as"
| "refunded (_ # as) = refunded as"

subsection \<open>A scenario\<close>

text \<open>
  The usage example of the module, step by step: a customer, a card, a payment of 99.99
  USD. The provider is a parameter, so that the same steps run against a provider that
  accepts and against providers that decline.
\<close>

definition declining_provider :: "(string, string) dict \<Rightarrow> PaymentProvider" where
  "declining_provider result =
     \<lparr>charge = (\<lambda>customer amount' payment_method_id'. Inr (False, result)),
      refund = (\<lambda>payment_id' amount'. Inr (False, result))\<rparr>"

definition no_refund_provider :: PaymentProvider where
  "no_refund_provider =
     \<lparr>charge = (\<lambda>customer amount' payment_method_id'. Inr (True, [])),
      refund = (\<lambda>payment_id' amount'. Inr (False, []))\<rparr>"

text \<open>
  Three handlers: one that raises an \<open>Exception\<close>, one that returns, and one that is
  interrupted from the keyboard while it runs.
\<close>

definition failing_handler :: Handler where
  "failing_handler = \<lparr>handler_id = ''audit'', call = (\<lambda>d. Raises_Exception ''disk full'')\<rparr>"

definition quiet_handler :: Handler where
  "quiet_handler = \<lparr>handler_id = ''mailer'', call = (\<lambda>d. Returns)\<rparr>"

definition interrupted_handler :: Handler where
  "interrupted_handler =
     \<lparr>handler_id = ''console'', call = (\<lambda>d. Raises_Other KeyboardInterrupt)\<rparr>"

definition with_customer :: "PaymentProvider \<Rightarrow> PaymentProcessor" where
  "with_customer prov =
     snd (create_customer (init prov) ''alice@example.com'' ''Alice'' [] ''a1'' 1000)"

definition with_card :: "PaymentProvider \<Rightarrow> PaymentProcessor" where
  "with_card prov =
     snd (add_payment_method (with_customer prov) ''cus_a1'' CARD ''4242'' ''visa'' 12 2025 []
            ''b2'')"

definition with_payment :: "PaymentProvider \<Rightarrow> PaymentProcessor" where
  "with_payment prov =
     snd (create_payment (with_card prov) ''cus_a1'' (Finite False 9999 (- 2)) USD None
            ''Pro Plan'' ''c3'' 2000 3000)"

definition with_hooks :: "PaymentProvider \<Rightarrow> PaymentProcessor" where
  "with_hooks prov =
     add_hook (add_hook (with_card prov) ''payment.created'' failing_handler)
       ''payment.created'' quiet_handler"

definition with_interrupt :: "PaymentProvider \<Rightarrow> PaymentProcessor" where
  "with_interrupt prov =
     add_hook (add_hook (with_card prov) ''payment.created'' interrupted_handler)
       ''payment.created'' quiet_handler"

definition alice :: Customer where
  "alice = \<lparr>Customer.id = ''cus_a1'', email = ''alice@example.com'', Customer.name = ''Alice'',
             payment_methods = [], default_payment_method = None, Customer.metadata = [],
             Customer.created_at = 1000\<rparr>"

definition card :: PaymentMethodInfo where
  "card = \<lparr>PaymentMethodInfo.id = ''pm_b2'', type = CARD, last_four = ''4242'',
            brand = ''visa'', exp_month = 12, exp_year = 2025, PaymentMethodInfo.metadata = []\<rparr>"

definition alice_with_card :: Customer where
  "alice_with_card = alice\<lparr>payment_methods := [card], default_payment_method := Some ''pm_b2''\<rparr>"

definition pro_payment :: Payment where
  "pro_payment =
     \<lparr>Payment.id = ''pay_c3'', Payment.customer_id = ''cus_a1'',
      Payment.amount = \<lparr>Money.amount = Finite False 9999 (- 2), currency = USD\<rparr>,
      Payment.status = PENDING, payment_method_id = Some ''pm_b2'',
      description = ''Pro Plan'', Payment.metadata = [], Payment.created_at = 2000,
      completed_at = None, error = None\<rparr>"

text \<open>
  A store filled out of time order, by two customers: the payments are stamped 10, 30, 20
  and 20, in the order in which they were stored.
\<close>

definition payment_of :: "string \<Rightarrow> string \<Rightarrow> datetime \<Rightarrow> Payment" where
  "payment_of i c t =
     pro_payment\<lparr>Payment.id := i, Payment.customer_id := c, Payment.created_at := t\<rparr>"

definition ledger :: PaymentProcessor where
  "ledger =
     (init AbstractPaymentProvider)
       \<lparr>payments := [(''pay_1'', payment_of ''pay_1'' ''cus_a1'' 10),
                     (''pay_2'', payment_of ''pay_2'' ''cus_z9'' 30),
                     (''pay_3'', payment_of ''pay_3'' ''cus_a1'' 20),
                     (''pay_4'', payment_of ''pay_4'' ''cus_z9'' 20)]\<rparr>"

subsection \<open>The invariant of a customer\<close>

text \<open>A default payment method, if set, is the id of one of the customer's methods.\<close>

definition default_in_methods :: "Customer \<Rightarrow> bool" where
  "default_in_methods c =
     (case default_payment_method c of
        None \<Rightarrow> True
      | Some d \<Rightarrow> d \<in> PaymentMethodInfo.id ` set (payment_methods c))"

section \<open>Properties\<close>

subsection \<open>Decimal arithmetic\<close>

lemma ndigits_le: "0 < k \<Longrightarrow> n < 10 ^ k \<Longrightarrow> ndigits n \<le> k"
proof (induction n arbitrary: k rule: ndigits.induct)
  case (1 n)
  show ?case
  proof (cases "n < 10")
    case True
    with "1.prems" show ?thesis
      by (simp add: ndigits.simps)
  next
    case False
    with "1.prems" obtain j where k: "k = Suc j"
      by (cases k) auto
    from False "1.prems" k have "0 < j"
      by (cases j) auto
    moreover from "1.prems" k have "n div 10 < 10 ^ j"
      by (simp add: less_mult_imp_div_less mult.commute)
    ultimately have "ndigits (n div 10) \<le> j"
      using False by (intro "1.IH") auto
    with False k show ?thesis
      by (simp add: ndigits.simps)
  qed
qed








subsection \<open>Money arithmetic\<close>






subsection \<open>Period calculation\<close>

lemma timedelta_days:
  "timedelta n 0 = (if \<bar>n\<bar> > 999999999 then Inl OverflowError else Inr (n * 86400000000))"
  by (simp add: timedelta_def microseconds_per_day_def)

lemma timedelta_weeks: "timedelta 0 n = timedelta (7 * n) 0"
  by (simp add: timedelta_def)

lemma add_days_plus_days:
  "(case timedelta n 0 of Inl e \<Rightarrow> Inl e | Inr d \<Rightarrow> datetime_add start d) = plus_days start n"
  by (auto simp: timedelta_days datetime_add_def plus_days_def)

text \<open>
  Claim C6. The period end is a function of \<open>(start, interval, count)\<close>: daily gives
  \<open>start\<close> plus \<open>count\<close> days, weekly \<open>start\<close> plus \<open>count\<close> weeks (\<open>7 * count\<close> days),
  monthly \<open>start\<close> plus \<open>30 * count\<close> days, and yearly, like every interval that is none
  of the three, \<open>start\<close> plus \<open>365 * count\<close> days.
\<close>

theorem calculate_period_end_spec:
  "calculate_period_end start DAILY n = plus_days start n
   \<and> calculate_period_end start WEEKLY n = plus_days start (7 * n)
   \<and> calculate_period_end start MONTHLY n = plus_days start (30 * n)
   \<and> (iv \<notin> {DAILY, WEEKLY, MONTHLY}
        \<longrightarrow> calculate_period_end start iv n = plus_days start (365 * n))"
  by (simp add: calculate_period_end_def timedelta_weeks add_days_plus_days)

theorem calculate_period_end_spec_witness:
  "YEARLY \<notin> {DAILY, WEEKLY, MONTHLY}
   \<and> calculate_period_end 1000000 YEARLY 2 = Inr (1000000 + 730 * 86400000000)
   \<and> calculate_period_end 1000000 MONTHLY 1 = Inr (1000000 + 30 * 86400000000)
   \<and> calculate_period_end 1000000 WEEKLY 3 = Inr (1000000 + 21 * 86400000000)
   \<and> calculate_period_end 1000000 DAILY 1000000000 = Inl OverflowError"
  using calculate_period_end_spec [of 1000000 2 YEARLY] calculate_period_end_spec [of 1000000 1]
    calculate_period_end_spec [of 1000000 3] calculate_period_end_spec [of 1000000 1000000000]
  by (simp add: plus_days_def datetime_max_def microseconds_per_day_def)


subsection \<open>Dictionaries and the trace\<close>

lemma dict_get_set: "dict_get (dict_set d k v) k' = (if k' = k then Some v else dict_get d k')"
  by (induction d) auto

lemma dict_get_absent: "k \<notin> fst ` set d \<Longrightarrow> dict_get d k = None"
  by (induction d) auto

lemma dict_get_update:
  "distinct (map fst r) \<Longrightarrow>
   dict_get (dict_update d r) k = (case dict_get r k of None \<Rightarrow> dict_get d k | Some v \<Rightarrow> Some v)"
proof (induction r arbitrary: d)
  case Nil
  then show ?case by simp
next
  case (Cons kv r)
  obtain k' v where kv: "kv = (k', v)" by (cases kv)
  from Cons.prems kv have d: "distinct (map fst r)" and n: "k' \<notin> fst ` set r" by auto
  show ?case
    using Cons.IH [OF d, of "dict_set d k' v"] n
    by (auto simp: kv dict_get_set dict_get_absent split: option.splits)
qed

lemma emitted_append: "emitted ev (xs @ ys) = emitted ev xs @ emitted ev ys"
  by (induction ev xs rule: emitted.induct) auto

lemma invoked_append: "invoked (xs @ ys) = invoked xs @ invoked ys"
  by (induction xs rule: invoked.induct) auto

lemma logged_append: "logged (xs @ ys) = logged xs @ logged ys"
  by (induction xs rule: logged.induct) auto

lemma charged_append: "charged (xs @ ys) = charged xs @ charged ys"
  by (induction xs rule: charged.induct) auto

lemma refunded_append: "refunded (xs @ ys) = refunded xs @ refunded ys"
  by (induction xs rule: refunded.induct) auto


lemma emitted_run_handlers: "emitted ev (fst (run_handlers hs d)) = []"
  by (induction hs) (auto split: Outcome.splits prod.splits)

lemma charged_run_handlers: "charged (fst (run_handlers hs d)) = []"
  by (induction hs) (auto split: Outcome.splits prod.splits)

lemma refunded_run_handlers: "refunded (fst (run_handlers hs d)) = []"
  by (induction hs) (auto split: Outcome.splits prod.splits)

lemma run_handlers_isolated:
  "\<forall>h \<in> set hs. isolated (call h d) \<Longrightarrow>
   snd (run_handlers hs d) = None
   \<and> invoked (fst (run_handlers hs d)) = map (\<lambda>h. (handler_id h, d)) hs
   \<and> logged (fst (run_handlers hs d)) = List.map_filter (\<lambda>h. log_line (call h d)) hs"
  by (induction hs) (auto simp: List.map_filter_simps split: Outcome.splits prod.splits)


lemma emit_eq:
  "emit s ev d =
     (snd (run_handlers (registered s ev) d),
      s\<lparr>trace := trace s @ Emit ev d # fst (run_handlers (registered s ev) d)\<rparr>)"
  by (simp add: emit_def split: prod.splits)

lemma registered_add_hook:
  "registered (add_hook s ev h) ev' =
     (if ev' = ev \<and> dict_get (hooks s) ev \<noteq> None then registered s ev @ [h]
      else registered s ev')"
  by (auto simp: registered_def add_hook_def dict_get_set split: option.splits)

lemma registered_updates [simp]:
  "registered (s\<lparr>customers := cs\<rparr>) ev = registered s ev"
  "registered (s\<lparr>payments := ps\<rparr>) ev = registered s ev"
  "registered (s\<lparr>refunds := rs\<rparr>) ev = registered s ev"
  "registered (s\<lparr>subscriptions := ss\<rparr>) ev = registered s ev"
  "registered (s\<lparr>trace := tr\<rparr>) ev = registered s ev"
  by (simp_all add: registered_def)

subsection \<open>The scenario, evaluated\<close>

lemma with_customer_eq:
  "with_customer prov = (init prov)\<lparr>customers := [(''cus_a1'', alice)]\<rparr>"
  by (simp add: with_customer_def create_customer_def init_def alice_def Let_def)

lemma with_card_eq:
  "with_card prov = (init prov)\<lparr>customers := [(''cus_a1'', alice_with_card)]\<rparr>"
  by (simp add: with_card_def with_customer_eq add_payment_method_def init_def alice_def
      alice_with_card_def card_def Let_def)

lemma registered_with_card: "registered (with_card prov) ev = []"
  by (simp add: with_card_eq registered_def init_def)

lemma add_hook_fields [simp]:
  "provider (add_hook s ev h) = provider s"
  "customers (add_hook s ev h) = customers s"
  "payments (add_hook s ev h) = payments s"
  "trace (add_hook s ev h) = trace s"
  by (simp_all add: add_hook_def split: option.splits)

lemma hooks_with_card: "dict_get (hooks (with_card prov)) ''payment.created'' = Some []"
  by (simp add: with_card_eq init_def)

lemma hooks_add_hook:
  "dict_get (hooks s) ev = Some hs \<Longrightarrow> dict_get (hooks (add_hook s ev h)) ev = Some (hs @ [h])"
  by (simp add: add_hook_def dict_get_set)

lemma registered_with_hooks:
  "registered (with_hooks prov) ev =
     (if ev = ''payment.created'' then [failing_handler, quiet_handler] else [])"
  by (simp add: with_hooks_def registered_add_hook hooks_with_card registered_with_card
      hooks_add_hook [OF hooks_with_card])

lemma registered_with_interrupt:
  "registered (with_interrupt prov) ev =
     (if ev = ''payment.created'' then [interrupted_handler, quiet_handler] else [])"
  by (simp add: with_interrupt_def registered_add_hook hooks_with_card registered_with_card
      hooks_add_hook [OF hooks_with_card])

lemma with_hooks_charged:
  "charged (new_actions (with_hooks (MockPaymentProvider t))
      (snd (create_payment (with_hooks (MockPaymentProvider t)) ''cus_a1''
              (Finite False 9999 (- 2)) USD None ''Pro Plan'' ''c3'' 2000 3000)))
   = [(alice_with_card, \<lparr>Money.amount = Finite False 9999 (- 2), currency = USD\<rparr>, ''pm_b2'')]"
proof -
  let ?s = "with_hooks (MockPaymentProvider t)"
  have c: "dict_get (customers ?s) ''cus_a1'' = Some alice_with_card"
    by (simp add: with_hooks_def with_card_eq)
  have p: "provider ?s = MockPaymentProvider t"
    by (simp add: with_hooks_def with_card_eq init_def)
  have m: "pm_id_of None alice_with_card = Some ''pm_b2''"
    by (simp add: pm_id_of_def alice_with_card_def)
  have g: "charge (MockPaymentProvider t) = (\<lambda>c a i. Inr (True, [(''provider_id'', t)]))"
    by (simp add: MockPaymentProvider_def)
  show ?thesis
    by (simp add: create_payment_def c p m g Let_def emit_eq registered_with_hooks
        failing_handler_def quiet_handler_def new_actions_def charged_append)
qed

lemma pay_accepted:
  "create_payment (with_card (MockPaymentProvider t)) ''cus_a1'' (Finite False 9999 (- 2)) USD
     None ''Pro Plan'' ''c3'' 2000 3000 =
   (Inr (pro_payment\<lparr>Payment.status := COMPLETED, completed_at := Some 3000,
                      Payment.metadata := [(''provider_id'', t)]\<rparr>),
    (init (MockPaymentProvider t))
      \<lparr>customers := [(''cus_a1'', alice_with_card)],
       payments := [(''pay_c3'',
                     pro_payment\<lparr>Payment.status := COMPLETED, completed_at := Some 3000,
                       Payment.metadata := [(''provider_id'', t)]\<rparr>)],
       trace := [Emit ''payment.created'' (PaymentE pro_payment),
                 Charge alice_with_card \<lparr>Money.amount = Finite False 9999 (- 2), currency = USD\<rparr>
                   ''pm_b2'',
                 Emit ''payment.completed''
                   (PaymentE (pro_payment\<lparr>Payment.status := COMPLETED,
                      completed_at := Some 3000,
                      Payment.metadata := [(''provider_id'', t)]\<rparr>))]\<rparr>)"
  by (simp add: with_card_eq create_payment_def pm_id_of_def emit_def registered_def init_def
      MockPaymentProvider_def alice_with_card_def alice_def card_def pro_payment_def Let_def)

lemma pay_declined:
  "create_payment (with_card (declining_provider r)) ''cus_a1'' (Finite False 9999 (- 2)) USD
     None ''Pro Plan'' ''c3'' 2000 3000 =
   (Inr (pro_payment\<lparr>Payment.status := FAILED,
           error := Some (case dict_get r ''error'' of None \<Rightarrow> ''Payment failed''
                          | Some e \<Rightarrow> e)\<rparr>),
    (init (declining_provider r))
      \<lparr>customers := [(''cus_a1'', alice_with_card)],
       payments := [(''pay_c3'',
                     pro_payment\<lparr>Payment.status := FAILED,
                       error := Some (case dict_get r ''error'' of None \<Rightarrow> ''Payment failed''
                                      | Some e \<Rightarrow> e)\<rparr>)],
       trace := [Emit ''payment.created'' (PaymentE pro_payment),
                 Charge alice_with_card \<lparr>Money.amount = Finite False 9999 (- 2), currency = USD\<rparr>
                   ''pm_b2'',
                 Emit ''payment.failed''
                   (PaymentE (pro_payment\<lparr>Payment.status := FAILED,
                      error := Some (case dict_get r ''error'' of None \<Rightarrow> ''Payment failed''
                                     | Some e \<Rightarrow> e)\<rparr>))]\<rparr>)"
  by (simp add: with_card_eq create_payment_def pm_id_of_def emit_def registered_def init_def
      declining_provider_def alice_with_card_def alice_def card_def pro_payment_def Let_def)


subsection \<open>Outcome of a payment\<close>

text \<open>
  Claim C1, as amended. Take a call of \<open>create_payment\<close> that passes validation (the
  customer exists and a payment method id is resolved) and whose provider charge returns.
  Whenever the call returns a payment, that payment is the entry of the store under its
  id, and: if the charge succeeded, its status is COMPLETED, \<open>completed_at\<close> is set, the
  entries of the provider's result are the entries of its metadata, \<open>error\<close> is unset, and
  \<open>payment.completed\<close> is emitted exactly once, with the returned record, and
  \<open>payment.failed\<close> not at all; if the charge failed, its status is FAILED,
  \<open>completed_at\<close> is unset, \<open>error\<close> is set to the provider's \<open>error\<close> entry when the result
  has one and to \<open>Payment failed\<close> when it has none, and \<open>payment.failed\<close> is emitted
  exactly once, with the returned record, and \<open>payment.completed\<close> not at all. The
  call does return a payment when no handler of \<open>payment.created\<close> and of the event of
  the outcome raises past the \<open>except\<close> clause of \<open>_emit\<close>. And whether the call
  returns or not, once the provider has been charged, all of this holds of the payment
  that the store has under the new id.
\<close>

theorem create_payment_outcome:
  assumes "dict_get (customers s) cid = Some c"
    and "pm_id_of pm c = Some pmid" and "pmid \<noteq> []"
    and "charge (provider s) c \<lparr>Money.amount = am, currency = cur\<rparr> pmid = Inr (ok, res)"
    and "distinct (map fst res)"
  shows "(\<forall>p s'. create_payment s cid am cur pm descr tok now now2 = (Inr p, s') \<longrightarrow>
            dict_get (payments s') (Payment.id p) = Some p
            \<and> (if ok then
                  Payment.status p = COMPLETED \<and> completed_at p = Some now2 \<and> error p = None
                  \<and> (\<forall>k. dict_get (Payment.metadata p) k = dict_get res k)
                  \<and> emitted ''payment.completed'' (new_actions s s') = [PaymentE p]
                  \<and> emitted ''payment.failed'' (new_actions s s') = []
                else
                  Payment.status p = FAILED \<and> completed_at p = None
                  \<and> error p = Some (case dict_get res ''error'' of
                                      None \<Rightarrow> ''Payment failed'' | Some e \<Rightarrow> e)
                  \<and> emitted ''payment.failed'' (new_actions s s') = [PaymentE p]
                  \<and> emitted ''payment.completed'' (new_actions s s') = []))
     \<and> ((\<forall>h \<in> set (registered s ''payment.created''). \<forall>d. isolated (call h d))
          \<and> (\<forall>h \<in> set (registered s (if ok then ''payment.completed'' else ''payment.failed'')).
                \<forall>d. isolated (call h d))
        \<longrightarrow> (\<exists>p s'. create_payment s cid am cur pm descr tok now now2 = (Inr p, s')))
     \<and> (charged (new_actions s (snd (create_payment s cid am cur pm descr tok now now2))) \<noteq> []
        \<longrightarrow> (\<exists>p. dict_get (payments (snd (create_payment s cid am cur pm descr tok now now2)))
                    (''pay_'' @ tok) = Some p
              \<and> (if ok then
                    Payment.status p = COMPLETED \<and> completed_at p = Some now2 \<and> error p = None
                    \<and> (\<forall>k. dict_get (Payment.metadata p) k = dict_get res k)
                    \<and> emitted ''payment.completed''
                          (new_actions s (snd (create_payment s cid am cur pm descr tok now now2)))
                        = [PaymentE p]
                    \<and> emitted ''payment.failed''
                          (new_actions s (snd (create_payment s cid am cur pm descr tok now now2)))
                        = []
                  else
                    Payment.status p = FAILED \<and> completed_at p = None
                    \<and> error p = Some (case dict_get res ''error'' of
                                        None \<Rightarrow> ''Payment failed'' | Some e \<Rightarrow> e)
                    \<and> emitted ''payment.failed''
                          (new_actions s (snd (create_payment s cid am cur pm descr tok now now2)))
                        = [PaymentE p]
                    \<and> emitted ''payment.completed''
                          (new_actions s (snd (create_payment s cid am cur pm descr tok now now2)))
                        = [])))"
proof (intro conjI)
  show "\<forall>p s'. create_payment s cid am cur pm descr tok now now2 = (Inr p, s') \<longrightarrow>
            dict_get (payments s') (Payment.id p) = Some p
            \<and> (if ok then
                  Payment.status p = COMPLETED \<and> completed_at p = Some now2 \<and> error p = None
                  \<and> (\<forall>k. dict_get (Payment.metadata p) k = dict_get res k)
                  \<and> emitted ''payment.completed'' (new_actions s s') = [PaymentE p]
                  \<and> emitted ''payment.failed'' (new_actions s s') = []
                else
                  Payment.status p = FAILED \<and> completed_at p = None
                  \<and> error p = Some (case dict_get res ''error'' of
                                      None \<Rightarrow> ''Payment failed'' | Some e \<Rightarrow> e)
                  \<and> emitted ''payment.failed'' (new_actions s s') = [PaymentE p]
                  \<and> emitted ''payment.completed'' (new_actions s s') = [])"
    using assms
    by (cases ok)
      (auto simp: create_payment_def Let_def emit_eq new_actions_def dict_get_set
        emitted_append emitted_run_handlers dict_get_update split: option.splits)
  show "(\<forall>h \<in> set (registered s ''payment.created''). \<forall>d. isolated (call h d))
          \<and> (\<forall>h \<in> set (registered s (if ok then ''payment.completed'' else ''payment.failed'')).
                \<forall>d. isolated (call h d))
        \<longrightarrow> (\<exists>p s'. create_payment s cid am cur pm descr tok now now2 = (Inr p, s'))"
  proof
    assume iso: "(\<forall>h \<in> set (registered s ''payment.created''). \<forall>d. isolated (call h d))
          \<and> (\<forall>h \<in> set (registered s (if ok then ''payment.completed'' else ''payment.failed'')).
                \<forall>d. isolated (call h d))"
    then have r1: "\<And>d. snd (run_handlers (registered s ''payment.created'') d) = None"
      by (simp add: run_handlers_isolated)
    from iso have r2: "\<And>d. snd (run_handlers
        (registered s (if ok then ''payment.completed'' else ''payment.failed'')) d) = None"
      by (simp add: run_handlers_isolated)
    from assms r1 r2 show "\<exists>p s'. create_payment s cid am cur pm descr tok now now2 = (Inr p, s')"
      by (cases ok) (simp_all add: create_payment_def Let_def emit_eq)
  qed
  show "(charged (new_actions s (snd (create_payment s cid am cur pm descr tok now now2))) \<noteq> []
        \<longrightarrow> (\<exists>p. dict_get (payments (snd (create_payment s cid am cur pm descr tok now now2)))
                    (''pay_'' @ tok) = Some p
              \<and> (if ok then
                    Payment.status p = COMPLETED \<and> completed_at p = Some now2 \<and> error p = None
                    \<and> (\<forall>k. dict_get (Payment.metadata p) k = dict_get res k)
                    \<and> emitted ''payment.completed''
                          (new_actions s (snd (create_payment s cid am cur pm descr tok now now2)))
                        = [PaymentE p]
                    \<and> emitted ''payment.failed''
                          (new_actions s (snd (create_payment s cid am cur pm descr tok now now2)))
                        = []
                  else
                    Payment.status p = FAILED \<and> completed_at p = None
                    \<and> error p = Some (case dict_get res ''error'' of
                                        None \<Rightarrow> ''Payment failed'' | Some e \<Rightarrow> e)
                    \<and> emitted ''payment.failed''
                          (new_actions s (snd (create_payment s cid am cur pm descr tok now now2)))
                        = [PaymentE p]
                    \<and> emitted ''payment.completed''
                          (new_actions s (snd (create_payment s cid am cur pm descr tok now now2)))
                        = [])))"
    using assms
    by (cases ok)
      (auto simp: create_payment_def Let_def emit_eq new_actions_def dict_get_set
        emitted_append emitted_run_handlers charged_append charged_run_handlers dict_get_update
        split: option.splits)
qed

theorem create_payment_outcome_witness:
  "dict_get (customers (with_hooks (MockPaymentProvider ''ff''))) ''cus_a1'' = Some alice_with_card
   \<and> pm_id_of None alice_with_card = Some ''pm_b2'' \<and> ''pm_b2'' \<noteq> []
   \<and> charge (provider (with_hooks (MockPaymentProvider ''ff''))) alice_with_card
        \<lparr>Money.amount = Finite False 9999 (- 2), currency = USD\<rparr> ''pm_b2''
      = Inr (True, [(''provider_id'', ''ff'')])
   \<and> distinct (map fst [(''provider_id'', ''ff'')])
   \<and> registered (with_hooks (MockPaymentProvider ''ff'')) ''payment.created''
       = [failing_handler, quiet_handler]
   \<and> registered (with_hooks (MockPaymentProvider ''ff'')) ''payment.completed'' = []
   \<and> (\<exists>p s'. create_payment (with_hooks (MockPaymentProvider ''ff'')) ''cus_a1''
                 (Finite False 9999 (- 2)) USD None ''Pro Plan'' ''c3'' 2000 3000 = (Inr p, s')
         \<and> Payment.status p = COMPLETED \<and> completed_at p = Some 3000
         \<and> dict_get (Payment.metadata p) ''provider_id'' = Some ''ff''
         \<and> emitted ''payment.completed'' (new_actions (with_hooks (MockPaymentProvider ''ff'')) s')
             = [PaymentE p]
         \<and> charged (new_actions (with_hooks (MockPaymentProvider ''ff'')) s') \<noteq> []
         \<and> map_option Payment.status (dict_get (payments s') ''pay_c3'') = Some COMPLETED)"
proof -
  let ?s = "with_hooks (MockPaymentProvider ''ff'')"
  have h1: "dict_get (customers ?s) ''cus_a1'' = Some alice_with_card"
    by (simp add: with_hooks_def with_card_eq)
  have h2: "pm_id_of None alice_with_card = Some ''pm_b2''"
    by (simp add: pm_id_of_def alice_with_card_def)
  have h3: "''pm_b2'' \<noteq> []"
    by simp
  have h4: "charge (provider ?s) alice_with_card
              \<lparr>Money.amount = Finite False 9999 (- 2), currency = USD\<rparr>
              ''pm_b2'' = Inr (True, [(''provider_id'', ''ff'')])"
    by (simp add: with_hooks_def with_card_eq init_def MockPaymentProvider_def)
  have h5: "distinct (map fst [(''provider_id'', ''ff'')])"
    by simp
  have h6: "\<forall>h \<in> set (registered ?s ''payment.created''). \<forall>d. isolated (call h d)"
    by (simp add: registered_with_hooks failing_handler_def quiet_handler_def)
  have h7: "\<forall>h \<in> set (registered ?s ''payment.completed''). \<forall>d. isolated (call h d)"
    by (simp add: registered_with_hooks)
  note t = create_payment_outcome [OF h1 h2 h3 h4 h5, of "''Pro Plan''" "''c3''" 2000 3000]
  from t h6 h7 obtain p s' where
    r: "create_payment ?s ''cus_a1'' (Finite False 9999 (- 2)) USD None ''Pro Plan'' ''c3''
          2000 3000 = (Inr p, s')"
    by auto
  with t have a: "Payment.status p = COMPLETED" "completed_at p = Some 3000"
    "\<forall>k. dict_get (Payment.metadata p) k = dict_get [(''provider_id'', ''ff'')] k"
    "emitted ''payment.completed'' (new_actions ?s s') = [PaymentE p]"
    by auto
  from with_hooks_charged [of "''ff''"] r have c: "charged (new_actions ?s s') \<noteq> []"
    by simp
  with t r obtain q where "dict_get (payments s') ''pay_c3'' = Some q"
    and "Payment.status q = COMPLETED"
    by auto
  then have "map_option Payment.status (dict_get (payments s') ''pay_c3'') = Some COMPLETED"
    by simp
  moreover have "registered ?s ''payment.created'' = [failing_handler, quiet_handler]"
    and "registered ?s ''payment.completed'' = []"
    by (simp_all add: registered_with_hooks)
  moreover note a c r h1 h2 h3 h4 h5
  ultimately show ?thesis
    by auto
qed

text \<open>
  The claim as written asks for a non-empty \<open>error\<close> after every failed charge. A provider
  that declines with the result \<open>{"error": ""}\<close> leaves the empty string there: the
  default message stands in for a missing entry only.
\<close>

theorem create_payment_error_counterexample:
  "fst (create_payment (with_card (declining_provider [(''error'', '''')])) ''cus_a1''
          (Finite False 9999 (- 2)) USD None ''Pro Plan'' ''c3'' 2000 3000)
   = Inr (pro_payment\<lparr>Payment.status := FAILED, error := Some ''''\<rparr>)"
  by (simp add: pay_declined)


subsection \<open>Refunds\<close>

lemma with_payment_accepted:
  "with_payment (MockPaymentProvider t) =
   (init (MockPaymentProvider t))
      \<lparr>customers := [(''cus_a1'', alice_with_card)],
       payments := [(''pay_c3'',
                     pro_payment\<lparr>Payment.status := COMPLETED, completed_at := Some 3000,
                       Payment.metadata := [(''provider_id'', t)]\<rparr>)],
       trace := [Emit ''payment.created'' (PaymentE pro_payment),
                 Charge alice_with_card \<lparr>Money.amount = Finite False 9999 (- 2), currency = USD\<rparr>
                   ''pm_b2'',
                 Emit ''payment.completed''
                   (PaymentE (pro_payment\<lparr>Payment.status := COMPLETED,
                      completed_at := Some 3000,
                      Payment.metadata := [(''provider_id'', t)]\<rparr>))]\<rparr>"
  by (simp add: with_payment_def pay_accepted)

lemma registered_with_payment: "registered (with_payment (MockPaymentProvider t)) ev = []"
  by (simp add: with_payment_accepted registered_def init_def)

lemma with_payment_refunded:
  "refunded (new_actions (with_payment (MockPaymentProvider t))
      (snd (create_refund (with_payment (MockPaymentProvider t)) ''pay_c3'' None ''late''
              ''d4'' 4000)))
   = [(''pay_c3'', \<lparr>Money.amount = Finite False 9999 (- 2), currency = USD\<rparr>)]"
  unfolding with_payment_accepted
  by (simp add: create_refund_def refund_amount_def emit_def registered_def init_def
      MockPaymentProvider_def pro_payment_def Let_def new_actions_def)

lemma with_payment_no_refund:
  "dict_get (payments (with_payment no_refund_provider)) ''pay_c3''
     = Some (pro_payment\<lparr>Payment.status := COMPLETED, completed_at := Some 3000\<rparr>)
   \<and> provider (with_payment no_refund_provider) = no_refund_provider
   \<and> registered (with_payment no_refund_provider) ev = []"
  by (simp add: with_payment_def with_card_eq create_payment_def pm_id_of_def emit_def
      registered_def init_def no_refund_provider_def alice_with_card_def alice_def card_def
      pro_payment_def Let_def)

text \<open>
  Claim C2. Take a call of \<open>create_refund\<close> on a payment in status COMPLETED whose
  provider refund returns. Whenever the call returns a refund, that refund is the entry
  of the refund store under its id, and: if the provider refund succeeded, the refund's
  status is COMPLETED, the payment is now in status REFUNDED, and \<open>refund.completed\<close> is
  emitted once, with the refund; if it failed, the refund's status is FAILED, and the
  payment store is as it was: the payment is still COMPLETED. The call does return a
  refund when no handler of \<open>refund.created\<close> and, after a success, of
  \<open>refund.completed\<close> raises past the \<open>except\<close> clause of \<open>_emit\<close>. And whether the
  call returns or not, once the provider has been asked for the refund, all of this holds
  of the refund that the store has under the new id.
\<close>

theorem create_refund_outcome:
  assumes "dict_get (payments s) pid = Some p" and "Payment.status p = COMPLETED"
    and "refund (provider s) pid (refund_amount am p) = Inr (ok, res)"
  shows "(\<forall>r s'. create_refund s pid am rs tok now = (Inr (Some r), s') \<longrightarrow>
            dict_get (refunds s') (Refund.id r) = Some r
            \<and> (if ok then
                  Refund.status r = COMPLETED
                  \<and> dict_get (payments s') pid = Some (p\<lparr>Payment.status := REFUNDED\<rparr>)
                  \<and> emitted ''refund.completed'' (new_actions s s') = [RefundE r]
                else
                  Refund.status r = FAILED
                  \<and> payments s' = payments s \<and> dict_get (payments s') pid = Some p
                  \<and> emitted ''refund.completed'' (new_actions s s') = []))
     \<and> ((\<forall>h \<in> set (registered s ''refund.created''). \<forall>d. isolated (call h d))
          \<and> (ok \<longrightarrow> (\<forall>h \<in> set (registered s ''refund.completed''). \<forall>d. isolated (call h d)))
        \<longrightarrow> (\<exists>r s'. create_refund s pid am rs tok now = (Inr (Some r), s')))
     \<and> (refunded (new_actions s (snd (create_refund s pid am rs tok now))) \<noteq> []
        \<longrightarrow> (\<exists>r. dict_get (refunds (snd (create_refund s pid am rs tok now))) (''ref_'' @ tok)
                    = Some r
              \<and> (if ok then
                    Refund.status r = COMPLETED
                    \<and> dict_get (payments (snd (create_refund s pid am rs tok now))) pid
                        = Some (p\<lparr>Payment.status := REFUNDED\<rparr>)
                    \<and> emitted ''refund.completed''
                          (new_actions s (snd (create_refund s pid am rs tok now)))
                        = [RefundE r]
                  else
                    Refund.status r = FAILED
                    \<and> payments (snd (create_refund s pid am rs tok now)) = payments s
                    \<and> emitted ''refund.completed''
                          (new_actions s (snd (create_refund s pid am rs tok now)))
                        = [])))"
proof (intro conjI)
  show "\<forall>r s'. create_refund s pid am rs tok now = (Inr (Some r), s') \<longrightarrow>
            dict_get (refunds s') (Refund.id r) = Some r
            \<and> (if ok then
                  Refund.status r = COMPLETED
                  \<and> dict_get (payments s') pid = Some (p\<lparr>Payment.status := REFUNDED\<rparr>)
                  \<and> emitted ''refund.completed'' (new_actions s s') = [RefundE r]
                else
                  Refund.status r = FAILED
                  \<and> payments s' = payments s \<and> dict_get (payments s') pid = Some p
                  \<and> emitted ''refund.completed'' (new_actions s s') = [])"
    using assms
    by (cases ok)
      (auto simp: create_refund_def Let_def emit_eq new_actions_def dict_get_set
        emitted_append emitted_run_handlers split: option.splits)
  show "(\<forall>h \<in> set (registered s ''refund.created''). \<forall>d. isolated (call h d))
          \<and> (ok \<longrightarrow> (\<forall>h \<in> set (registered s ''refund.completed''). \<forall>d. isolated (call h d)))
        \<longrightarrow> (\<exists>r s'. create_refund s pid am rs tok now = (Inr (Some r), s'))"
  proof
    assume iso: "(\<forall>h \<in> set (registered s ''refund.created''). \<forall>d. isolated (call h d))
          \<and> (ok \<longrightarrow> (\<forall>h \<in> set (registered s ''refund.completed''). \<forall>d. isolated (call h d)))"
    then have r1: "\<And>d. snd (run_handlers (registered s ''refund.created'') d) = None"
      by (simp add: run_handlers_isolated)
    from iso have r2: "\<And>d. ok \<Longrightarrow> snd (run_handlers (registered s ''refund.completed'') d) = None"
      by (simp add: run_handlers_isolated)
    from assms r1 r2 show "\<exists>r s'. create_refund s pid am rs tok now = (Inr (Some r), s')"
      by (cases ok) (simp_all add: create_refund_def Let_def emit_eq)
  qed
  show "(refunded (new_actions s (snd (create_refund s pid am rs tok now))) \<noteq> []
        \<longrightarrow> (\<exists>r. dict_get (refunds (snd (create_refund s pid am rs tok now))) (''ref_'' @ tok)
                    = Some r
              \<and> (if ok then
                    Refund.status r = COMPLETED
                    \<and> dict_get (payments (snd (create_refund s pid am rs tok now))) pid
                        = Some (p\<lparr>Payment.status := REFUNDED\<rparr>)
                    \<and> emitted ''refund.completed''
                          (new_actions s (snd (create_refund s pid am rs tok now)))
                        = [RefundE r]
                  else
                    Refund.status r = FAILED
                    \<and> payments (snd (create_refund s pid am rs tok now)) = payments s
                    \<and> emitted ''refund.completed''
                          (new_actions s (snd (create_refund s pid am rs tok now)))
                        = [])))"
    using assms
    by (cases ok)
      (auto simp: create_refund_def Let_def emit_eq new_actions_def dict_get_set
        emitted_append emitted_run_handlers refunded_append refunded_run_handlers
        split: option.splits)
qed

theorem create_refund_outcome_witness:
  "(\<exists>r s'. create_refund (with_payment (MockPaymentProvider ''ff'')) ''pay_c3'' None ''late''
              ''d4'' 4000 = (Inr (Some r), s')
        \<and> Refund.status r = COMPLETED
        \<and> map_option Payment.status (dict_get (payments s') ''pay_c3'') = Some REFUNDED
        \<and> refunded (new_actions (with_payment (MockPaymentProvider ''ff'')) s') \<noteq> []
        \<and> map_option Refund.status (dict_get (refunds s') ''ref_d4'') = Some COMPLETED)
   \<and> (\<exists>r s'. create_refund (with_payment no_refund_provider) ''pay_c3'' None ''late''
              ''d4'' 4000 = (Inr (Some r), s')
        \<and> Refund.status r = FAILED
        \<and> map_option Payment.status (dict_get (payments s') ''pay_c3'') = Some COMPLETED)"
proof -
  let ?p = "pro_payment\<lparr>Payment.status := COMPLETED, completed_at := Some 3000,
                         Payment.metadata := [(''provider_id'', ''ff'')]\<rparr>"
  let ?q = "pro_payment\<lparr>Payment.status := COMPLETED, completed_at := Some 3000\<rparr>"
  let ?a = "with_payment (MockPaymentProvider ''ff'')"
  let ?b = "with_payment no_refund_provider"
  have a1: "dict_get (payments ?a) ''pay_c3'' = Some ?p"
    by (simp add: with_payment_accepted)
  have a2: "Payment.status ?p = COMPLETED"
    by simp
  have a3: "refund (provider ?a) ''pay_c3'' (refund_amount None ?p)
              = Inr (True, [(''provider_id'', ''ff'')])"
    unfolding with_payment_accepted by (simp add: init_def MockPaymentProvider_def)
  have a4: "(\<forall>h \<in> set (registered ?a ''refund.created''). \<forall>d. isolated (call h d))
      \<and> (True \<longrightarrow> (\<forall>h \<in> set (registered ?a ''refund.completed''). \<forall>d. isolated (call h d)))"
    by (simp add: registered_with_payment)
  have b1: "dict_get (payments ?b) ''pay_c3'' = Some ?q"
    by (simp add: with_payment_no_refund)
  have b2: "Payment.status ?q = COMPLETED"
    by simp
  have b3: "refund (provider ?b) ''pay_c3'' (refund_amount None ?q) = Inr (False, [])"
    by (subst conjunct1 [OF conjunct2 [OF with_payment_no_refund]])
      (simp add: no_refund_provider_def)
  have b4: "(\<forall>h \<in> set (registered ?b ''refund.created''). \<forall>d. isolated (call h d))
      \<and> (False \<longrightarrow> (\<forall>h \<in> set (registered ?b ''refund.completed''). \<forall>d. isolated (call h d)))"
    by (simp add: with_payment_no_refund)
  note ta = create_refund_outcome [OF a1 a2 a3, of "''late''" "''d4''" 4000]
  note tb = create_refund_outcome [OF b1 b2 b3, of "''late''" "''d4''" 4000]
  from conjunct1 [OF conjunct2 [OF ta]] a4 obtain r1 s1 where
    c1: "create_refund ?a ''pay_c3'' None ''late'' ''d4'' 4000 = (Inr (Some r1), s1)"
    by blast
  with conjunct1 [OF ta] have d1: "Refund.status r1 = COMPLETED"
    "dict_get (payments s1) ''pay_c3'' = Some (?p\<lparr>Payment.status := REFUNDED\<rparr>)"
    by auto
  have e0: "refunded (new_actions ?a (snd (create_refund ?a ''pay_c3'' None ''late'' ''d4'' 4000)))
      \<noteq> []"
    by (simp add: with_payment_refunded)
  from mp [OF conjunct2 [OF conjunct2 [OF ta]] e0]
  obtain q where "dict_get (refunds (snd (create_refund ?a ''pay_c3'' None ''late'' ''d4'' 4000)))
                    (''ref_'' @ ''d4'') = Some q"
    and "Refund.status q = COMPLETED"
    by auto
  with c1 have f1: "map_option Refund.status (dict_get (refunds s1) ''ref_d4'') = Some COMPLETED"
    by simp
  from e0 c1 have e1: "refunded (new_actions ?a s1) \<noteq> []"
    by simp
  from conjunct1 [OF conjunct2 [OF tb]] b4 obtain r2 s2 where
    c2: "create_refund ?b ''pay_c3'' None ''late'' ''d4'' 4000 = (Inr (Some r2), s2)"
    by blast
  with conjunct1 [OF tb] have d2: "Refund.status r2 = FAILED"
    "dict_get (payments s2) ''pay_c3'' = Some ?q"
    by auto
  from c1 d1 e1 f1 c2 d2 show ?thesis
    by simp
qed

text \<open>
  Claim C3. \<open>create_refund\<close> returns \<open>None\<close> if and only if the payment id is unknown or
  the payment's status is not COMPLETED; and when it returns \<open>None\<close>, the processor is
  as it was before the call: no refund is stored and nothing is emitted.
\<close>

theorem create_refund_none_iff:
  "(fst (create_refund s pid am rs tok now) = Inr None
      \<longleftrightarrow> dict_get (payments s) pid = None
          \<or> (\<exists>p. dict_get (payments s) pid = Some p \<and> Payment.status p \<noteq> COMPLETED))
   \<and> (fst (create_refund s pid am rs tok now) = Inr None
      \<longrightarrow> snd (create_refund s pid am rs tok now) = s)"
  by (auto simp: create_refund_def emit_eq Let_def split: option.splits sum.splits prod.splits)

theorem create_refund_none_iff_witness:
  "fst (create_refund (with_payment (declining_provider [])) ''pay_c3'' None ''late'' ''d4'' 4000)
     = Inr None
   \<and> snd (create_refund (with_payment (declining_provider [])) ''pay_c3'' None ''late'' ''d4'' 4000)
     = with_payment (declining_provider [])
   \<and> map_option Payment.status (dict_get (payments (with_payment (declining_provider [])))
        ''pay_c3'') = Some FAILED
   \<and> fst (create_refund (with_payment (declining_provider [])) ''pay_zz'' None ''late'' ''d4'' 4000)
     = Inr None"
proof -
  let ?s = "with_payment (declining_provider [])"
  have st: "dict_get (payments ?s) ''pay_c3''
              = Some (pro_payment\<lparr>Payment.status := FAILED, error := Some ''Payment failed''\<rparr>)"
    by (simp add: with_payment_def pay_declined)
  have un: "dict_get (payments ?s) ''pay_zz'' = None"
    by (simp add: with_payment_def pay_declined)
  from st un create_refund_none_iff [of ?s "''pay_c3''" None "''late''" "''d4''" 4000]
    create_refund_none_iff [of ?s "''pay_zz''" None "''late''" "''d4''" 4000]
  show ?thesis
    by simp
qed

text \<open>
  Claim C4. The refund of a COMPLETED payment carries the payment's currency; its amount
  is the payment's amount when no amount is passed and the amount passed otherwise. The
  code takes the amount with \<open>amount or payment.amount.amount\<close>, so an amount of zero
  counts as no amount: asked to refund 0 of a payment of 99.99 USD, it refunds 99.99.
\<close>

theorem create_refund_zero_amount:
  "fst (create_refund (with_payment (MockPaymentProvider ''ff'')) ''pay_c3''
          (Some (Finite False 0 0)) ''goodwill'' ''d4'' 4000)
   = Inr (Some \<lparr>Refund.id = ''ref_d4'', payment_id = ''pay_c3'',
                Refund.amount = \<lparr>Money.amount = Finite False 9999 (- 2), currency = USD\<rparr>,
                reason = ''goodwill'', Refund.status = COMPLETED, Refund.created_at = 4000\<rparr>)"
  unfolding with_payment_accepted
  by (simp add: create_refund_def refund_amount_def emit_def registered_def init_def
      MockPaymentProvider_def pro_payment_def Let_def)

lemma refund_amount_spec:
  "Money.currency (refund_amount am p) = Money.currency (Payment.amount p)
   \<and> Money.amount (refund_amount None p) = Money.amount (Payment.amount p)
   \<and> (decimal_bool a \<longrightarrow> Money.amount (refund_amount (Some a) p) = a)
   \<and> Money.amount (refund_amount (Some (Finite sg 0 e)) p) = Money.amount (Payment.amount p)"
  by (simp add: refund_amount_def split: option.splits)

subsection \<open>The payment method of a payment\<close>

text \<open>
  Claim C10, as amended. When \<open>create_payment\<close> is called for an existing customer with
  a non-empty payment method id, that id is taken as it is, whatever the customer's
  payment methods are: the payment is stored with it; and when no handler of
  \<open>payment.created\<close> raises past the \<open>except\<close> clause of \<open>_emit\<close>, the provider is
  charged once, with it.
\<close>

theorem create_payment_unchecked_method:
  assumes "dict_get (customers s) cid = Some c" and "pm \<noteq> []"
  shows "\<exists>r s'. create_payment s cid am cur (Some pm) descr tok now now2 = (r, s')
      \<and> (\<exists>p. dict_get (payments s') (''pay_'' @ tok) = Some p
             \<and> payment_method_id p = Some pm \<and> Payment.customer_id p = cid)
      \<and> ((\<forall>h \<in> set (registered s ''payment.created''). \<forall>d. isolated (call h d)) \<longrightarrow>
            charged (new_actions s s') = [(c, \<lparr>Money.amount = am, currency = cur\<rparr>, pm)])"
proof -
  let ?out = "create_payment s cid am cur (Some pm) descr tok now now2"
  from assms have stored: "\<exists>p. dict_get (payments (snd ?out)) (''pay_'' @ tok) = Some p
             \<and> payment_method_id p = Some pm \<and> Payment.customer_id p = cid"
    by (simp add: create_payment_def pm_id_of_def Let_def emit_eq dict_get_set
        split: sum.splits option.splits)
  have charge: "charged (new_actions s (snd ?out)) = [(c, \<lparr>Money.amount = am, currency = cur\<rparr>, pm)]"
    if "\<forall>h \<in> set (registered s ''payment.created''). \<forall>d. isolated (call h d)"
  proof -
    from that have "\<And>d. snd (run_handlers (registered s ''payment.created'') d) = None"
      by (simp add: run_handlers_isolated)
    with assms show ?thesis
      by (simp add: create_payment_def pm_id_of_def Let_def emit_eq new_actions_def
          charged_append charged_run_handlers split: sum.splits option.splits)
  qed
  from stored charge show ?thesis
    by (cases ?out) auto
qed

theorem create_payment_unchecked_method_witness:
  "dict_get (customers (with_customer (MockPaymentProvider ''ff''))) ''cus_a1'' = Some alice
   \<and> ''pm_nobody'' \<noteq> [] \<and> payment_methods alice = []
   \<and> registered (with_customer (MockPaymentProvider ''ff'')) ''payment.created'' = []
   \<and> (\<exists>r s'. create_payment (with_customer (MockPaymentProvider ''ff'')) ''cus_a1''
                 (Finite False 5 0) EUR (Some ''pm_nobody'') ''x'' ''e5'' 10 20 = (r, s')
         \<and> (\<exists>p. dict_get (payments s') ''pay_e5'' = Some p
                \<and> payment_method_id p = Some ''pm_nobody'')
         \<and> charged (new_actions (with_customer (MockPaymentProvider ''ff'')) s')
             = [(alice, \<lparr>Money.amount = Finite False 5 0, currency = EUR\<rparr>, ''pm_nobody'')])"
proof -
  let ?s = "with_customer (MockPaymentProvider ''ff'')"
  have h1: "dict_get (customers ?s) ''cus_a1'' = Some alice"
    by (simp add: with_customer_eq)
  have h2: "''pm_nobody'' \<noteq> []"
    by simp
  have h3: "payment_methods alice = []"
    by (simp add: alice_def)
  have h4: "\<forall>h \<in> set (registered ?s ''payment.created''). \<forall>d. isolated (call h d)"
    by (simp add: with_customer_eq registered_def init_def)
  have h5: "registered ?s ''payment.created'' = []"
    by (simp add: with_customer_eq registered_def init_def)
  from create_payment_unchecked_method [OF h1 h2, of "Finite False 5 0" EUR "''x''" "''e5''" 10 20]
    h1 h2 h3 h4 h5
  show ?thesis
    by auto
qed

text \<open>
  The claim as written has the provider charged at every such call. The charge comes
  after the emission of \<open>payment.created\<close>: with a handler of that event that is
  interrupted from the keyboard, the payment is stored with the id that nobody has, the
  call ends with \<open>KeyboardInterrupt\<close>, and the provider is not charged.
\<close>

theorem create_payment_unchecked_method_counterexample:
  "fst (create_payment (with_interrupt (MockPaymentProvider ''ff'')) ''cus_a1''
          (Finite False 5 0) EUR (Some ''pm_nobody'') ''x'' ''e5'' 10 20)
     = Inl KeyboardInterrupt
   \<and> map_option payment_method_id
        (dict_get (payments (snd (create_payment (with_interrupt (MockPaymentProvider ''ff''))
             ''cus_a1'' (Finite False 5 0) EUR (Some ''pm_nobody'') ''x'' ''e5'' 10 20)))
           ''pay_e5'')
     = Some (Some ''pm_nobody'')
   \<and> charged (new_actions (with_interrupt (MockPaymentProvider ''ff''))
        (snd (create_payment (with_interrupt (MockPaymentProvider ''ff'')) ''cus_a1''
                (Finite False 5 0) EUR (Some ''pm_nobody'') ''x'' ''e5'' 10 20)))
     = []"
proof -
  let ?s = "with_interrupt (MockPaymentProvider ''ff'')"
  have c: "dict_get (customers ?s) ''cus_a1'' = Some alice_with_card"
    by (simp add: with_interrupt_def with_card_eq)
  have p: "payments ?s = []"
    by (simp add: with_interrupt_def with_card_eq init_def)
  show ?thesis
    by (simp add: create_payment_def c p pm_id_of_def Let_def emit_eq
        registered_with_interrupt interrupted_handler_def new_actions_def)
qed


subsection \<open>Event emission\<close>










subsection \<open>Listing payments\<close>

lemma sorted_reverse_descending:
  "sorted_wrt (\<lambda>x y. key x \<ge> key y) (sorted_reverse key xs)"
proof -
  have "sorted (map key (sort_key key (rev xs)))"
    by simp
  then have "sorted_wrt (\<lambda>x y. key x \<le> key y) (sort_key key (rev xs))"
    by (simp add: sorted_wrt_map)
  then show ?thesis
    by (simp add: sorted_reverse_def sorted_wrt_rev)
qed

lemma mset_sorted_reverse: "mset (sorted_reverse key xs) = mset xs"
  by (simp add: sorted_reverse_def)

lemma sorted_reverse_stable:
  "filter (\<lambda>x. key x = k) (sorted_reverse key xs) = filter (\<lambda>x. key x = k) xs"
proof -
  have "filter (\<lambda>x. key x = k) (sorted_reverse key xs)
          = rev (filter (\<lambda>x. key x = k) (sort_key key (rev xs)))"
    by (simp add: sorted_reverse_def rev_filter)
  also have "\<dots> = rev (filter (\<lambda>x. key x = k) (rev xs))"
    by (simp only: sort_key_stable)
  also have "\<dots> = filter (\<lambda>x. key x = k) xs"
    by (simp add: rev_filter)
  finally show ?thesis .
qed

text \<open>
  Claim C7, as amended. \<open>list_payments\<close> returns the payments sorted by \<open>created_at\<close>,
  newest first, whatever the order of the store: no payment comes before a newer one, and
  the payments that have the same \<open>created_at\<close> come in the order in which the store
  holds them. The call leaves the processor as it is. Called with a non-empty customer
  id, it returns exactly the stored payments of that customer; called with no customer
  id, or with the empty string, it returns every stored payment.
\<close>

theorem list_payments_spec:
  "\<exists>ps. list_payments s cid = (ps, s)
      \<and> sorted_wrt (\<lambda>p q. Payment.created_at p \<ge> Payment.created_at q) ps
      \<and> (\<forall>c. cid = Some c \<and> c \<noteq> [] \<longrightarrow>
            mset ps = mset (filter (\<lambda>p. Payment.customer_id p = c) (dict_values (payments s)))
            \<and> (\<forall>t. filter (\<lambda>p. Payment.created_at p = t) ps
                    = filter (\<lambda>p. Payment.created_at p = t)
                        (filter (\<lambda>p. Payment.customer_id p = c) (dict_values (payments s)))))
      \<and> (cid = None \<or> cid = Some [] \<longrightarrow>
            mset ps = mset (dict_values (payments s))
            \<and> (\<forall>t. filter (\<lambda>p. Payment.created_at p = t) ps
                    = filter (\<lambda>p. Payment.created_at p = t) (dict_values (payments s))))"
proof (cases "truthy_str cid")
  case True
  then obtain c where c: "cid = Some c" "c \<noteq> []"
    by (cases cid) auto
  have "(\<lambda>p. Some (Payment.customer_id p) = Some c) = (\<lambda>p. Payment.customer_id p = c)"
    by auto
  with c show ?thesis
    by (simp add: list_payments_def Let_def sorted_reverse_descending mset_sorted_reverse
        sorted_reverse_stable)
next
  case False
  then have "cid = None \<or> cid = Some []"
    by (cases cid) auto
  then show ?thesis
    by (auto simp: list_payments_def Let_def sorted_reverse_descending mset_sorted_reverse
        sorted_reverse_stable)
qed

lemma ledger_listed:
  "list_payments ledger None =
     ([payment_of ''pay_2'' ''cus_z9'' 30, payment_of ''pay_3'' ''cus_a1'' 20,
       payment_of ''pay_4'' ''cus_z9'' 20, payment_of ''pay_1'' ''cus_a1'' 10], ledger)"
  "list_payments ledger (Some ''cus_a1'') =
     ([payment_of ''pay_3'' ''cus_a1'' 20, payment_of ''pay_1'' ''cus_a1'' 10], ledger)"
  "list_payments ledger (Some '''') =
     ([payment_of ''pay_2'' ''cus_z9'' 30, payment_of ''pay_3'' ''cus_a1'' 20,
       payment_of ''pay_4'' ''cus_z9'' 20, payment_of ''pay_1'' ''cus_a1'' 10], ledger)"
  by (simp_all add: list_payments_def Let_def dict_values_def sorted_reverse_def ledger_def
      init_def payment_of_def pro_payment_def)

lemma ledger_values:
  "dict_values (payments ledger) =
     [payment_of ''pay_1'' ''cus_a1'' 10, payment_of ''pay_2'' ''cus_z9'' 30,
      payment_of ''pay_3'' ''cus_a1'' 20, payment_of ''pay_4'' ''cus_z9'' 20]"
  by (simp add: ledger_def dict_values_def init_def)

theorem list_payments_spec_witness:
  "''cus_a1'' \<noteq> []
   \<and> list_payments ledger (Some ''cus_a1'')
       = ([payment_of ''pay_3'' ''cus_a1'' 20, payment_of ''pay_1'' ''cus_a1'' 10], ledger)
   \<and> mset (fst (list_payments ledger (Some ''cus_a1'')))
       = mset (filter (\<lambda>p. Payment.customer_id p = ''cus_a1'') (dict_values (payments ledger)))
   \<and> sorted_wrt (\<lambda>p q. Payment.created_at p \<ge> Payment.created_at q)
        (fst (list_payments ledger (Some ''cus_a1'')))
   \<and> filter (\<lambda>p. Payment.created_at p = 20) (fst (list_payments ledger None))
       = [payment_of ''pay_3'' ''cus_a1'' 20, payment_of ''pay_4'' ''cus_z9'' 20]
   \<and> mset (fst (list_payments ledger None)) = mset (dict_values (payments ledger))"
proof -
  from list_payments_spec [of ledger "Some ''cus_a1''"]
  obtain ps where ps: "list_payments ledger (Some ''cus_a1'') = (ps, ledger)"
    and srt: "sorted_wrt (\<lambda>p q. Payment.created_at p \<ge> Payment.created_at q) ps"
    and ex: "\<forall>c. Some ''cus_a1'' = Some c \<and> c \<noteq> [] \<longrightarrow>
            mset ps = mset (filter (\<lambda>p. Payment.customer_id p = c) (dict_values (payments ledger)))
            \<and> (\<forall>t. filter (\<lambda>p. Payment.created_at p = t) ps
                    = filter (\<lambda>p. Payment.created_at p = t)
                        (filter (\<lambda>p. Payment.customer_id p = c)
                           (dict_values (payments ledger))))"
    by blast
  from ex have m: "mset ps = mset (filter (\<lambda>p. Payment.customer_id p = ''cus_a1'')
                                     (dict_values (payments ledger)))"
    by simp
  from list_payments_spec [of ledger None]
  obtain qs where qs: "list_payments ledger None = (qs, ledger)"
    and all: "mset qs = mset (dict_values (payments ledger))"
    and st: "\<forall>t. filter (\<lambda>p. Payment.created_at p = t) qs
                 = filter (\<lambda>p. Payment.created_at p = t) (dict_values (payments ledger))"
    by auto
  from st have "filter (\<lambda>p. Payment.created_at p = 20) qs
      = filter (\<lambda>p. Payment.created_at p = 20) (dict_values (payments ledger))"
    by (rule spec)
  also have "\<dots> = [payment_of ''pay_3'' ''cus_a1'' 20, payment_of ''pay_4'' ''cus_z9'' 20]"
    unfolding ledger_values by (simp add: payment_of_def)
  finally have tie: "filter (\<lambda>p. Payment.created_at p = 20) qs
      = [payment_of ''pay_3'' ''cus_a1'' 20, payment_of ''pay_4'' ''cus_z9'' 20]" .
  have a: "fst (list_payments ledger (Some ''cus_a1'')) = ps"
    by (simp add: ps)
  have b: "fst (list_payments ledger None) = qs"
    by (simp add: qs)
  have c: "list_payments ledger (Some ''cus_a1'')
       = ([payment_of ''pay_3'' ''cus_a1'' 20, payment_of ''pay_1'' ''cus_a1'' 10], ledger)"
    by (rule ledger_listed)
  have d: "''cus_a1'' \<noteq> []"
    by simp
  from d c m srt tie all show ?thesis
    unfolding a b by (intro conjI)
qed

text \<open>
  The claim as written has the payments strictly descending by \<open>created_at\<close>, and has
  every customer id that is given select the payments of that customer. Two payments
  stamped with the same instant both come back, one after the other, in the order of the
  store: the result is not strictly descending. And the empty string is a customer id
  that selects nothing and filters nothing: all four payments of the store come back,
  none of which has it as \<open>customer_id\<close>.
\<close>

theorem list_payments_counterexample:
  "map Payment.id (fst (list_payments ledger None)) = [''pay_2'', ''pay_3'', ''pay_4'', ''pay_1'']
   \<and> map Payment.created_at (fst (list_payments ledger None)) = [30, 20, 20, 10]
   \<and> \<not> sorted_wrt (\<lambda>p q. Payment.created_at p > Payment.created_at q)
          (fst (list_payments ledger None))
   \<and> map Payment.customer_id (fst (list_payments ledger (Some '''')))
       = [''cus_z9'', ''cus_a1'', ''cus_z9'', ''cus_a1'']"
  by (simp add: ledger_listed) (simp add: payment_of_def)


subsection \<open>The default payment method\<close>

lemma dict_set_member: "x \<in> set (dict_set d k v) \<Longrightarrow> x = (k, v) \<or> x \<in> set d"
  by (induction d) (auto split: if_splits)

lemma dict_values_set:
  "set (dict_values (dict_set d k v)) \<subseteq> insert v (set (dict_values d))"
  by (auto simp: dict_values_def dest!: dict_set_member)

lemma dict_get_in_values: "dict_get d k = Some v \<Longrightarrow> v \<in> set (dict_values d)"
  by (induction d) (auto simp: dict_values_def split: if_splits)

lemma customers_emit: "customers (snd (emit s ev d)) = customers s"
  by (simp add: emit_eq)

lemma customers_add_hook: "customers (add_hook s ev h) = customers s"
  by (simp add: add_hook_def split: option.splits)

lemma customers_create_payment:
  "customers (snd (create_payment s cid am cur pm descr tok now now2)) = customers s"
  by (simp add: create_payment_def Let_def emit_eq
      split: option.splits sum.splits prod.splits)

lemma customers_create_refund:
  "customers (snd (create_refund s pid am rs tok now)) = customers s"
  by (simp add: create_refund_def Let_def emit_eq
      split: option.splits sum.splits prod.splits)

lemma customers_create_plan:
  "customers (snd (create_plan s nm am cur iv ic td fs md tok)) = customers s"
  by (simp add: create_plan_def Let_def)

lemma customers_create_subscription:
  "customers (snd (create_subscription s cid plid tok now now2)) = customers s"
  by (simp add: create_subscription_def Let_def emit_eq
      split: option.splits sum.splits prod.splits)

lemma customers_cancel_subscription:
  "customers (snd (cancel_subscription s sid now)) = customers s"
  by (simp add: cancel_subscription_def Let_def emit_eq split: option.splits)

lemma customers_list_payments: "customers (snd (list_payments s cid)) = customers s"
  by (simp add: list_payments_def Let_def)

lemma create_customer_invariant:
  assumes "\<forall>c \<in> set (dict_values (customers s)). default_in_methods c"
  shows "\<forall>c \<in> set (dict_values (customers (snd (create_customer s em nm md tok now)))).
           default_in_methods c"
proof
  let ?c = "\<lparr>Customer.id = ''cus_'' @ tok, email = em, Customer.name = nm,
             payment_methods = [], default_payment_method = None,
             Customer.metadata = md, Customer.created_at = now\<rparr>"
  fix c
  assume "c \<in> set (dict_values (customers (snd (create_customer s em nm md tok now))))"
  then have "c \<in> set (dict_values (dict_set (customers s) (''cus_'' @ tok) ?c))"
    by (simp add: create_customer_def Let_def)
  then have "c = ?c \<or> c \<in> set (dict_values (customers s))"
    using dict_values_set [of "customers s" "''cus_'' @ tok" ?c] by blast
  moreover have "default_in_methods ?c"
    by (simp add: default_in_methods_def)
  ultimately show "default_in_methods c"
    using assms by blast
qed

lemma add_payment_method_invariant:
  assumes "\<forall>c \<in> set (dict_values (customers s)). default_in_methods c"
  shows "\<forall>c \<in> set (dict_values (customers (snd (add_payment_method s cid mt lf br em ey md tok)))).
           default_in_methods c"
proof (cases "dict_get (customers s) cid")
  case None
  with assms show ?thesis
    by (simp add: add_payment_method_def)
next
  case (Some customer)
  let ?m = "\<lparr>PaymentMethodInfo.id = ''pm_'' @ tok, type = mt, last_four = lf, brand = br,
             exp_month = em, exp_year = ey, PaymentMethodInfo.metadata = md\<rparr>"
  let ?c1 = "customer\<lparr>payment_methods := payment_methods customer @ [?m]\<rparr>"
  let ?c2 = "if \<not> truthy_str (default_payment_method ?c1)
             then ?c1\<lparr>default_payment_method := Some (PaymentMethodInfo.id ?m)\<rparr> else ?c1"
  from Some have "customer \<in> set (dict_values (customers s))"
    by (rule dict_get_in_values)
  with assms have "default_in_methods customer"
    by blast
  then have ok: "default_in_methods ?c2"
    by (auto simp: default_in_methods_def split: option.splits)
  show ?thesis
  proof
    fix c
    assume "c \<in> set (dict_values (customers (snd (add_payment_method s cid mt lf br em ey md tok))))"
    with Some have "c \<in> set (dict_values (dict_set (customers s) cid ?c2))"
      by (auto simp: add_payment_method_def Let_def split: if_splits)
    then have "c = ?c2 \<or> c \<in> set (dict_values (customers s))"
      using dict_values_set [of "customers s" cid ?c2] by blast
    with ok assms show "default_in_methods c"
      by blast
  qed
qed

lemma reachable_invariant:
  "reachable s \<Longrightarrow> \<forall>c \<in> set (dict_values (customers s)). default_in_methods c"
proof (induction rule: reachable.induct)
  case (r_init prov)
  show ?case by (simp add: init_def dict_values_def)
next
  case (r_add_hook s event h)
  then show ?case by (simp add: customers_add_hook)
next
  case (r_create_customer s em nm md tok now)
  from r_create_customer.IH show ?case by (rule create_customer_invariant)
next
  case (r_add_payment_method s cid mt lf br em ey md tok)
  from r_add_payment_method.IH show ?case by (rule add_payment_method_invariant)
next
  case (r_create_payment s cid am cur pm descr tok now now2)
  then show ?case by (simp add: customers_create_payment)
next
  case (r_create_refund s pid am rs tok now)
  then show ?case by (simp add: customers_create_refund)
next
  case (r_create_plan s nm am cur iv ic td fs md tok)
  then show ?case by (simp add: customers_create_plan)
next
  case (r_create_subscription s cid plid tok now now2)
  then show ?case by (simp add: customers_create_subscription)
next
  case (r_cancel_subscription s sid now)
  then show ?case by (simp add: customers_cancel_subscription)
next
  case (r_list_payments s cid)
  then show ?case by (simp add: customers_list_payments)
qed

lemma first_method_becomes_default:
  assumes "dict_get (customers s) cid = Some c" and "default_payment_method c = None"
  shows "\<exists>m s' c'. add_payment_method s cid mt lf br em ey md tok = (Some m, s')
      \<and> dict_get (customers s') cid = Some c'
      \<and> payment_methods c' = payment_methods c @ [m]
      \<and> default_payment_method c' = Some (PaymentMethodInfo.id m)"
  using assms by (simp add: add_payment_method_def Let_def dict_get_set)

text \<open>
  Claim C9. In every state that the processor reaches through its operations, every
  customer of the store whose default payment method is set has it among the ids of the
  customer's payment methods; and a call of \<open>add_payment_method\<close> on a customer without
  a default appends the new method and makes its id the default.
\<close>

theorem default_payment_method_invariant:
  "(reachable s \<longrightarrow>
      (\<forall>c \<in> set (dict_values (customers s)). \<forall>d. default_payment_method c = Some d
          \<longrightarrow> d \<in> PaymentMethodInfo.id ` set (payment_methods c)))
   \<and> (dict_get (customers s) cid = Some c \<and> default_payment_method c = None \<longrightarrow>
        (\<exists>m s' c'. add_payment_method s cid mt lf br em ey md tok = (Some m, s')
           \<and> dict_get (customers s') cid = Some c'
           \<and> payment_methods c' = payment_methods c @ [m]
           \<and> default_payment_method c' = Some (PaymentMethodInfo.id m)))"
proof (intro conjI impI)
  assume "reachable s"
  then have "\<forall>c \<in> set (dict_values (customers s)). default_in_methods c"
    by (rule reachable_invariant)
  then show "\<forall>c \<in> set (dict_values (customers s)). \<forall>d. default_payment_method c = Some d
          \<longrightarrow> d \<in> PaymentMethodInfo.id ` set (payment_methods c)"
    by (auto simp: default_in_methods_def split: option.splits)
next
  assume "dict_get (customers s) cid = Some c \<and> default_payment_method c = None"
  then show "\<exists>m s' c'. add_payment_method s cid mt lf br em ey md tok = (Some m, s')
           \<and> dict_get (customers s') cid = Some c'
           \<and> payment_methods c' = payment_methods c @ [m]
           \<and> default_payment_method c' = Some (PaymentMethodInfo.id m)"
    using first_method_becomes_default by blast
qed

theorem default_payment_method_invariant_witness:
  "reachable (with_card (MockPaymentProvider ''ff''))
   \<and> alice_with_card \<in> set (dict_values (customers (with_card (MockPaymentProvider ''ff''))))
   \<and> default_payment_method alice_with_card = Some ''pm_b2''
   \<and> ''pm_b2'' \<in> PaymentMethodInfo.id ` set (payment_methods alice_with_card)
   \<and> dict_get (customers (with_customer (MockPaymentProvider ''ff''))) ''cus_a1'' = Some alice
   \<and> default_payment_method alice = None
   \<and> (\<exists>m s' c'. add_payment_method (with_customer (MockPaymentProvider ''ff'')) ''cus_a1'' CARD
                    ''4242'' ''visa'' 12 2025 [] ''b2'' = (Some m, s')
         \<and> dict_get (customers s') ''cus_a1'' = Some c'
         \<and> payment_methods c' = payment_methods alice @ [m]
         \<and> default_payment_method c' = Some (PaymentMethodInfo.id m))"
proof -
  let ?P = "MockPaymentProvider ''ff''"
  have "reachable (with_customer ?P)"
    unfolding with_customer_def by (rule r_create_customer) (rule r_init)
  then have r: "reachable (with_card ?P)"
    unfolding with_card_def by (rule r_add_payment_method)
  have m: "alice_with_card \<in> set (dict_values (customers (with_card ?P)))"
    by (simp add: with_card_eq dict_values_def)
  have d: "default_payment_method alice_with_card = Some ''pm_b2''"
    by (simp add: alice_with_card_def)
  have g: "dict_get (customers (with_customer ?P)) ''cus_a1'' = Some alice"
    by (simp add: with_customer_eq)
  have n: "default_payment_method alice = None"
    by (simp add: alice_def)
  from default_payment_method_invariant [where s = "with_card ?P"] r m d
  have i: "''pm_b2'' \<in> PaymentMethodInfo.id ` set (payment_methods alice_with_card)"
    by blast
  from default_payment_method_invariant [where s = "with_customer ?P" and cid = "''cus_a1''"
      and c = alice and mt = CARD and lf = "''4242''" and br = "''visa''" and em = 12
      and ey = 2025 and md = "[]" and tok = "''b2''"] g n
  have "\<exists>m s' c'. add_payment_method (with_customer ?P) ''cus_a1'' CARD
                    ''4242'' ''visa'' 12 2025 [] ''b2'' = (Some m, s')
         \<and> dict_get (customers s') ''cus_a1'' = Some c'
         \<and> payment_methods c' = payment_methods alice @ [m]
         \<and> default_payment_method c' = Some (PaymentMethodInfo.id m)"
    by blast
  with r m d i g n show ?thesis
    by blast
qed


end
